theory Spec2Isabelle
  imports Complex_Main "HOL-Library.Char_ord" "HOL-Library.List_Lexorder"
    "HOL-Library.Product_Lexorder" "HOL-Library.Multiset"
begin

section \<open>JavaScript values\<close>

text \<open>
  \<^verbatim>\<open>src/index.js\<close> holds three successive versions of the TonyOS backend. The second
  (the functions \<^verbatim>\<open>urgencyScore\<close>, \<^verbatim>\<open>leverageScore\<close>, \<^verbatim>\<open>riskScore\<close>,
  \<^verbatim>\<open>frictionScore\<close>, \<^verbatim>\<open>computeScores\<close>) scores the fields of a request body; the third
  (\<^verbatim>\<open>computeTonyScore\<close>, \<^verbatim>\<open>withScores\<close>) scores the rows read back from the table.
  The first version, with per-user tasks in SQLite, has no scoring and is not modelled.

  The scoring code inspects its inputs dynamically (\<^verbatim>\<open>!due\<close>, \<^verbatim>\<open>typeof x === "number"\<close>,
  \<^verbatim>\<open>x || "later"\<close>), so a field is a JavaScript value. The values modelled are the ones a
  JSON request body or a table row can hold: \<^verbatim>\<open>undefined\<close>, \<^verbatim>\<open>null\<close>, booleans,
  integral numbers, strings (as the bytes of their UTF-8 encoding) and \<^verbatim>\<open>Date\<close> objects
  (the time value in milliseconds, \<open>None\<close> for an invalid date). Numbers with a fractional part, infinities,
  arrays and plain objects are outside the model.
\<close>

datatype jsval =
    JUndefined
  | JNull
  | JBool bool
  | JNum int
  | JStr string
  | JDate "int option"

text \<open>ToBoolean: what \<^verbatim>\<open>!x\<close> and \<^verbatim>\<open>x || y\<close> test. An object, hence a Date, is truthy.\<close>

fun truthy :: "jsval \<Rightarrow> bool" where
  "truthy JUndefined = False"
| "truthy JNull = False"
| "truthy (JBool b) = b"
| "truthy (JNum n) = (n \<noteq> 0)"
| "truthy (JStr s) = (s \<noteq> [])"
| "truthy (JDate d) = True"

text \<open>\<^verbatim>\<open>a || b\<close> on values.\<close>

definition js_or :: "jsval \<Rightarrow> jsval \<Rightarrow> jsval" where
  "js_or a b = (if truthy a then a else b)"

text \<open>
  The time value of \<^verbatim>\<open>new Date(v)\<close>, \<open>None\<close> when \<^verbatim>\<open>getTime()\<close> is NaN. A string goes
  through \<^verbatim>\<open>Date.parse\<close>, which belongs to the runtime and is the parameter \<open>parse\<close>; a
  Date is copied; any other primitive is converted to a number and clipped to the range of
  time values.
\<close>

fun newDate :: "(string \<Rightarrow> int option) \<Rightarrow> jsval \<Rightarrow> int option" where
  "newDate parse (JDate d) = d"
| "newDate parse (JStr s) = parse s"
| "newDate parse (JNum n) = (if \<bar>n\<bar> \<le> 8640000000000000 then Some n else None)"
| "newDate parse (JBool b) = Some (if b then 1 else 0)"
| "newDate parse JNull = Some 0"
| "newDate parse JUndefined = None"

section \<open>Task objects\<close>

text \<open>
  The object handed to the scoring functions. \<^verbatim>\<open>computeScores\<close> is called with
  \<^verbatim>\<open>{ title, description, bucket, priority, due_date }\<close>, so the three score fields are
  \<^verbatim>\<open>undefined\<close> there; \<^verbatim>\<open>computeTonyScore\<close> is called with a table row, which carries
  the columns \<^verbatim>\<open>leverage_score\<close>, \<^verbatim>\<open>risk_score\<close> and \<^verbatim>\<open>friction_score\<close>.
\<close>

record task =
  title :: jsval
  description :: jsval
  bucket :: jsval
  priority :: jsval
  due_date :: jsval
  leverage_score :: jsval
  risk_score :: jsval
  friction_score :: jsval

section \<open>Urgency\<close>

text \<open>
  \<^verbatim>\<open>urgencyScore(task)\<close> of the second version. \<open>now\<close> is the time value of
  \<^verbatim>\<open>new Date()\<close>. Time values are integral, so \<open>diffMs\<close> is an integer; \<open>diffHours\<close> is
  the quotient, taken here as a real number. The division of the source rounds to a double,
  which does not change any of the four comparisons: rounding is monotone, 0, 24, 72 and 168
  are doubles, and a quotient on the other side of one of them is at least \<open>1/3600000\<close> away.
\<close>

definition urgencyScore :: "(string \<Rightarrow> int option) \<Rightarrow> int \<Rightarrow> task \<Rightarrow> int" where
  "urgencyScore parse now task =
     (let due = due_date task; bucket = bucket task in
      if \<not> truthy due then
        (if bucket = JStr ''today'' then 3
         else if bucket = JStr ''this_week'' then 2
         else 1)
      else
        (case newDate parse due of
           None \<Rightarrow> 1
         | Some d \<Rightarrow>
             (let diffMs = d - now;
                  diffHours = real_of_int diffMs / (1000 * 60 * 60)
              in if diffHours < 0 then 5
                 else if diffHours \<le> 24 then 4
                 else if diffHours \<le> 72 then 3
                 else if diffHours \<le> 24 * 7 then 2
                 else 1)))"

text \<open>
  The nested \<^verbatim>\<open>urgencyScore()\<close> of \<^verbatim>\<open>computeTonyScore(t)\<close>, third version, with
  \<^verbatim>\<open>const bucket = t.bucket || "later"\<close>.
\<close>

definition computeTonyScore_urgencyScore :: "(string \<Rightarrow> int option) \<Rightarrow> int \<Rightarrow> task \<Rightarrow> int" where
  "computeTonyScore_urgencyScore parse now t =
     (let bucket = js_or (bucket t) (JStr ''later'') in
      if \<not> truthy (due_date t) then
        (if bucket = JStr ''today'' then 3
         else if bucket = JStr ''this_week'' then 2
         else 1)
      else
        (case newDate parse (due_date t) of
           None \<Rightarrow> 1
         | Some d \<Rightarrow>
             (let diffHours = real_of_int (d - now) / (1000 * 60 * 60)
              in if diffHours < 0 then 5
                 else if diffHours \<le> 24 then 4
                 else if diffHours \<le> 72 then 3
                 else if diffHours \<le> 24 * 7 then 2
                 else 1)))"

text \<open>Hours from \<open>now\<close> until the time value \<open>ms\<close>.\<close>

definition hours_remaining :: "int \<Rightarrow> int \<Rightarrow> real" where
  "hours_remaining now ms = real_of_int (ms - now) / 3600000"

section \<open>Strings\<close>

text \<open>
  The string functions of the runtime that the code calls, on UTF-8 byte strings.
  \<^verbatim>\<open>toLowerCase\<close> maps the letters A to Z to a to z and leaves every other byte as it is.
  Case mappings outside ASCII are not modelled; they neither make nor break an occurrence
  of one of the five words that \<^verbatim>\<open>frictionScore\<close> looks for.
\<close>

definition lower_char :: "char \<Rightarrow> char" where
  "lower_char c =
     (case map_of (zip ''ABCDEFGHIJKLMNOPQRSTUVWXYZ'' ''abcdefghijklmnopqrstuvwxyz'') c of
        None \<Rightarrow> c
      | Some d \<Rightarrow> d)"

definition toLowerCase :: "string \<Rightarrow> string" where
  "toLowerCase s = map lower_char s"

text \<open>\<^verbatim>\<open>s.startsWith(w)\<close> and \<^verbatim>\<open>s.includes(w)\<close>: \<open>w\<close> occurs in \<open>s\<close> at some position.\<close>

fun startsWith :: "string \<Rightarrow> string \<Rightarrow> bool" where
  "startsWith s [] = True"
| "startsWith [] (w # ws) = False"
| "startsWith (c # cs) (w # ws) = (c = w \<and> startsWith cs ws)"

fun str_includes :: "string \<Rightarrow> string \<Rightarrow> bool" where
  "str_includes [] w = (w = [])"
| "str_includes (c # cs) w = (startsWith (c # cs) w \<or> str_includes cs w)"

text \<open>
  White space as \<^verbatim>\<open>trim\<close> and \<^verbatim>\<open>parseInt\<close> skip it: the white space and line terminator
  characters of the language, each as the bytes of its UTF-8 encoding. These are TAB, LF,
  VT, FF, CR and space, then U+00A0, U+1680, U+2000 to U+200A, U+2028, U+2029, U+202F,
  U+205F, U+3000 and U+FEFF. A string is taken to be well-formed UTF-8, so that one of these
  byte sequences at the start or at the end of a string is the character it encodes.
\<close>

definition white_space :: "string list" where
  "white_space =
     [[CHR 0x09], [CHR 0x0A], [CHR 0x0B], [CHR 0x0C], [CHR 0x0D], [CHR 0x20],
      [CHR 0xC2, CHR 0xA0], [CHR 0xE1, CHR 0x9A, CHR 0x80],
      [CHR 0xE2, CHR 0x80, CHR 0x80], [CHR 0xE2, CHR 0x80, CHR 0x81],
      [CHR 0xE2, CHR 0x80, CHR 0x82], [CHR 0xE2, CHR 0x80, CHR 0x83],
      [CHR 0xE2, CHR 0x80, CHR 0x84], [CHR 0xE2, CHR 0x80, CHR 0x85],
      [CHR 0xE2, CHR 0x80, CHR 0x86], [CHR 0xE2, CHR 0x80, CHR 0x87],
      [CHR 0xE2, CHR 0x80, CHR 0x88], [CHR 0xE2, CHR 0x80, CHR 0x89],
      [CHR 0xE2, CHR 0x80, CHR 0x8A], [CHR 0xE2, CHR 0x80, CHR 0xA8],
      [CHR 0xE2, CHR 0x80, CHR 0xA9], [CHR 0xE2, CHR 0x80, CHR 0xAF],
      [CHR 0xE2, CHR 0x81, CHR 0x9F], [CHR 0xE3, CHR 0x80, CHR 0x80],
      [CHR 0xEF, CHR 0xBB, CHR 0xBF]]"

text \<open>Dropping from the start of \<open>s\<close> as long as one of the sequences \<open>ws\<close> stands there.\<close>

function drop_leading :: "string list \<Rightarrow> string \<Rightarrow> string" where
  "drop_leading ws s =
     (case find (\<lambda>w. w \<noteq> [] \<and> startsWith s w) ws of
        None \<Rightarrow> s
      | Some w \<Rightarrow> drop_leading ws (drop (length w) s))"
  by pat_completeness auto
termination
proof (relation "measure (\<lambda>(ws, s). length s)")
  show "wf (measure (\<lambda>(ws, s). length s))" by simp
next
  fix ws :: "string list" and s w :: string
  assume "find (\<lambda>w. w \<noteq> [] \<and> startsWith s w) ws = Some w"
  then have w: "w \<noteq> []" "startsWith s w"
    by (auto simp: find_Some_iff)
  have "startsWith a b \<Longrightarrow> length b \<le> length a" for a b
    by (induction a b rule: startsWith.induct) auto
  with w have "length s - length w < length s"
    by (cases w; cases s) auto
  then show "((ws, drop (length w) s), (ws, s)) \<in> measure (\<lambda>(ws, s). length s)"
    by simp
qed

declare drop_leading.simps [simp del]

text \<open>\<^verbatim>\<open>s.trimStart()\<close>, \<^verbatim>\<open>s.trimEnd()\<close> and \<^verbatim>\<open>s.trim()\<close>.\<close>

definition trimStart :: "string \<Rightarrow> string" where
  "trimStart s = drop_leading white_space s"

definition trimEnd :: "string \<Rightarrow> string" where
  "trimEnd s = rev (drop_leading (map rev white_space) (rev s))"

definition trim :: "string \<Rightarrow> string" where
  "trim s = trimEnd (trimStart s)"

definition is_digit :: "char \<Rightarrow> bool" where
  "is_digit c = (c \<in> set ''0123456789'')"

definition digit_value :: "char \<Rightarrow> int" where
  "digit_value c = int (of_char c) - 48"

text \<open>
  \<^verbatim>\<open>parseInt(s, 10)\<close> on a string: leading white space is skipped, one sign is read, and
  the longest run of decimal digits is the value; with no digit the result is NaN, here
  \<open>None\<close>.
\<close>

definition parseInt_str :: "string \<Rightarrow> int option" where
  "parseInt_str s =
     (let s1 = trimStart s;
          neg = (s1 \<noteq> [] \<and> hd s1 = CHR ''-'');
          s2 = (if s1 \<noteq> [] \<and> (hd s1 = CHR ''-'' \<or> hd s1 = CHR ''+'') then tl s1 else s1);
          ds = takeWhile is_digit s2
      in if ds = [] then None
         else Some ((if neg then - 1 else 1) * foldl (\<lambda>a c. 10 * a + digit_value c) 0 ds))"

text \<open>
  \<^verbatim>\<open>parseInt(v, 10)\<close> on a value converts it to a string first. The strings of
  \<^verbatim>\<open>undefined\<close>, \<^verbatim>\<open>null\<close>, a boolean and a Date (a weekday name, or "Invalid Date")
  start with a letter. A number never gets here, the one call site tests
  \<^verbatim>\<open>typeof\<close> before; an integer below ten to the 21st prints as its digits.
\<close>

fun parseInt :: "jsval \<Rightarrow> int option" where
  "parseInt (JStr s) = parseInt_str s"
| "parseInt (JNum n) = Some n"
| "parseInt (JBool b) = None"
| "parseInt JNull = None"
| "parseInt JUndefined = None"
| "parseInt (JDate d) = None"

text \<open>\<^verbatim>\<open>p || d\<close> where \<open>p\<close> is a number or NaN: 0 and NaN are falsy.\<close>

definition num_or :: "int option \<Rightarrow> int \<Rightarrow> int" where
  "num_or p d = (case p of None \<Rightarrow> d | Some n \<Rightarrow> if n = 0 then d else n)"

section \<open>The scoring engine of the second version\<close>

datatype js_error = TypeError

record scores =
  L :: int
  U :: int
  R :: int
  F :: int
  score :: int

definition leverageScore :: "task \<Rightarrow> int" where
  "leverageScore task =
     (let p = (case priority task of
                 JNum n \<Rightarrow> Some n
               | v \<Rightarrow> parseInt (js_or v (JStr ''3'')));
          clamped = min (max (num_or p 3) 1) 5
      in 6 - clamped)"

definition riskScore :: "(string \<Rightarrow> int option) \<Rightarrow> int \<Rightarrow> task \<Rightarrow> int" where
  "riskScore parse now task =
     (let u = urgencyScore parse now task in
      if u \<ge> 4 then 4
      else if u = 3 then 3
      else 2)"

text \<open>
  \<^verbatim>\<open>(task.description || "").toLowerCase()\<close> throws a TypeError when the description is
  truthy and not a string: such a value has no \<^verbatim>\<open>toLowerCase\<close>.
\<close>

definition frictionScore :: "task \<Rightarrow> js_error + int" where
  "frictionScore task =
     (case js_or (description task) (JStr '''') of
        JStr d \<Rightarrow>
          (let desc = toLowerCase d in
           if desc = [] then Inr 2
           else if str_includes desc ''tax'' \<or> str_includes desc ''accounting''
                   \<or> str_includes desc ''legal'' then Inr 3
           else if str_includes desc ''call'' \<or> str_includes desc ''email'' then Inr 1
           else Inr 2)
      | _ \<Rightarrow> Inl TypeError)"

text \<open>
  \<^verbatim>\<open>computeScores(task)\<close>. The clock is read once in each call of \<^verbatim>\<open>urgencyScore\<close>, and
  \<^verbatim>\<open>riskScore\<close> calls it again: \<open>now_u\<close> is the reading behind \<open>U\<close>, \<open>now_r\<close> the one
  behind \<open>R\<close>.
\<close>

definition computeScores ::
  "(string \<Rightarrow> int option) \<Rightarrow> int \<Rightarrow> int \<Rightarrow> task \<Rightarrow> js_error + scores" where
  "computeScores parse now_u now_r task =
     (let l = leverageScore task;
          u = urgencyScore parse now_u task;
          r = riskScore parse now_r task
      in case frictionScore task of
           Inl e \<Rightarrow> Inl e
         | Inr f \<Rightarrow> Inr \<lparr> L = l, U = u, R = r, F = f, score = l + u + r - f \<rparr>)"

section \<open>The scoring of the third version\<close>

text \<open>
  The remaining nested functions of \<^verbatim>\<open>computeTonyScore(t)\<close>. Each of leverage, risk and
  friction first returns the stored column when it holds a number.
\<close>

definition computeTonyScore_leverageScore :: "task \<Rightarrow> int" where
  "computeTonyScore_leverageScore t =
     (case leverage_score t of
        JNum stored \<Rightarrow> stored
      | _ \<Rightarrow>
          (let p = (case priority t of JNum n \<Rightarrow> n | _ \<Rightarrow> 3);
               clamped = min (max p 1) 5
           in 6 - clamped))"

definition computeTonyScore_riskScore :: "(string \<Rightarrow> int option) \<Rightarrow> int \<Rightarrow> task \<Rightarrow> int" where
  "computeTonyScore_riskScore parse now t =
     (case risk_score t of
        JNum stored \<Rightarrow> stored
      | _ \<Rightarrow>
          (let u = computeTonyScore_urgencyScore parse now t in
           if u \<ge> 4 then 4
           else if u = 3 then 3
           else 2))"

definition computeTonyScore_frictionScore :: "task \<Rightarrow> js_error + int" where
  "computeTonyScore_frictionScore t =
     (case friction_score t of
        JNum stored \<Rightarrow> Inr stored
      | _ \<Rightarrow>
          (case js_or (description t) (JStr '''') of
             JStr d \<Rightarrow>
               (let desc = toLowerCase d in
                if desc = [] then Inr 2
                else if str_includes desc ''tax'' \<or> str_includes desc ''accounting''
                        \<or> str_includes desc ''legal'' then Inr 3
                else if str_includes desc ''call'' \<or> str_includes desc ''email'' then Inr 1
                else Inr 2)
           | _ \<Rightarrow> Inl TypeError))"

definition computeTonyScore ::
  "(string \<Rightarrow> int option) \<Rightarrow> int \<Rightarrow> int \<Rightarrow> task \<Rightarrow> js_error + scores" where
  "computeTonyScore parse now_u now_r t =
     (let l = computeTonyScore_leverageScore t;
          u = computeTonyScore_urgencyScore parse now_u t;
          r = computeTonyScore_riskScore parse now_r t
      in case computeTonyScore_frictionScore t of
           Inl e \<Rightarrow> Inl e
         | Inr f \<Rightarrow> Inr \<lparr> L = l, U = u, R = r, F = f, score = l + u + r - f \<rparr>)"

section \<open>Example tasks\<close>

definition example_task :: task where
  "example_task =
     \<lparr> title = JStr ''File return'', description = JStr '''', bucket = JStr ''today'',
       priority = JNum 1, due_date = JNull, leverage_score = JNull, risk_score = JNull,
       friction_score = JNull \<rparr>"

section \<open>Table rows\<close>

text \<open>
  A row of the \<^verbatim>\<open>tasks\<close> table, typed as the DDL of \<^verbatim>\<open>initDb\<close> declares it: \<^verbatim>\<open>TEXT\<close> is
  a string, \<^verbatim>\<open>INTEGER\<close> an integer, \<^verbatim>\<open>TIMESTAMPTZ\<close> a time value in milliseconds, and a
  column without \<^verbatim>\<open>NOT NULL\<close> is optional. The table of the second version has no
  \<^verbatim>\<open>score\<close> column; \<open>col_score\<close> is \<open>None\<close> there.
\<close>

record row =
  col_id :: int
  col_title :: string
  col_description :: "string option"
  col_area :: "string option"
  col_status :: string
  col_bucket :: string
  col_priority :: int
  col_leverage_score :: "int option"
  col_urgency_score :: "int option"
  col_risk_score :: "int option"
  col_friction_score :: "int option"
  col_score :: "int option"
  col_due_date :: "int option"
  col_created_at :: int
  col_updated_at :: int

text \<open>
  The object the database driver hands to JavaScript for a row: text as a string, an
  integer as a number, a timestamp as a Date, NULL as \<^verbatim>\<open>null\<close>.
\<close>

definition nullable :: "('a \<Rightarrow> jsval) \<Rightarrow> 'a option \<Rightarrow> jsval" where
  "nullable f v = (case v of None \<Rightarrow> JNull | Some x \<Rightarrow> f x)"

definition js_of_row :: "row \<Rightarrow> task" where
  "js_of_row r =
     \<lparr> title = JStr (col_title r),
       description = nullable JStr (col_description r),
       bucket = JStr (col_bucket r),
       priority = JNum (col_priority r),
       due_date = nullable (\<lambda>ms. JDate (Some ms)) (col_due_date r),
       leverage_score = nullable JNum (col_leverage_score r),
       risk_score = nullable JNum (col_risk_score r),
       friction_score = nullable JNum (col_friction_score r) \<rparr>"

section \<open>Reading tasks\<close>

text \<open>
  \<^verbatim>\<open>withScores(rows)\<close>: every row is paired with the result of \<^verbatim>\<open>computeTonyScore\<close>. The
  pair \<open>(t, m)\<close> stands for the object \<^verbatim>\<open>{ ...t, ...metrics }\<close>: the row's columns, and the
  keys \<^verbatim>\<open>L\<close>, \<^verbatim>\<open>U\<close>, \<^verbatim>\<open>R\<close>, \<^verbatim>\<open>F\<close> and \<^verbatim>\<open>score\<close> of \<open>m\<close>, the last one in place of
  the row's \<^verbatim>\<open>score\<close> column. \<open>clock i\<close> are the two clock readings taken while row
  \<open>i\<close> is scored.
\<close>

fun withScores ::
  "(string \<Rightarrow> int option) \<Rightarrow> (nat \<Rightarrow> int \<times> int) \<Rightarrow> row list \<Rightarrow> js_error + (row \<times> scores) list"
where
  "withScores parse clock [] = Inr []"
| "withScores parse clock (t # ts) =
     (case computeTonyScore parse (fst (clock 0)) (snd (clock 0)) (js_of_row t) of
        Inl e \<Rightarrow> Inl e
      | Inr metrics \<Rightarrow>
          (case withScores parse (\<lambda>i. clock (Suc i)) ts of
             Inl e \<Rightarrow> Inl e
           | Inr rest \<Rightarrow> Inr ((t, metrics) # rest)))"

text \<open>A response: a status code with its JSON payload, or a status code with an error message.\<close>

datatype 'a response = Respond nat 'a | Fail nat string

text \<open>
  \<^verbatim>\<open>GET /tasks\<close> of the second version: \<^verbatim>\<open>SELECT * FROM tasks ORDER BY created_at ASC\<close>,
  sent as it is. \<^verbatim>\<open>ORDER BY\<close> is modelled by a stable sort on the key; the store may
  return rows with equal keys in any order.
\<close>

definition select_by_created_at :: "row list \<Rightarrow> row list" where
  "select_by_created_at tbl = sort_key col_created_at tbl"

definition get_tasks_v2 :: "row list \<Rightarrow> row list response" where
  "get_tasks_v2 tbl = Respond 200 (select_by_created_at tbl)"

text \<open>
  \<^verbatim>\<open>GET /tasks\<close> of the third version:
  \<^verbatim>\<open>ORDER BY (status = 'done') ASC, bucket, priority, COALESCE(due_date, '9999-12-31') ASC\<close>.
  False sorts before true, \<^verbatim>\<open>bucket\<close> is compared as text (here byte by byte, as
  under the C collation), and a missing due date is
  replaced by the last day of the year 9999 (its time value, for a session in UTC).
\<close>

definition far_future :: int where
  "far_future = 253402214400000"

definition tasks_order :: "row \<Rightarrow> bool \<times> string \<times> int \<times> int" where
  "tasks_order r =
     (col_status r = ''done'', col_bucket r, col_priority r,
      case col_due_date r of None \<Rightarrow> far_future | Some d \<Rightarrow> d)"

definition select_ordered :: "row list \<Rightarrow> row list" where
  "select_ordered tbl = sort_key tasks_order tbl"

definition get_tasks_v3 ::
  "(string \<Rightarrow> int option) \<Rightarrow> (nat \<Rightarrow> int \<times> int) \<Rightarrow> row list \<Rightarrow> (row \<times> scores) list response"
where
  "get_tasks_v3 parse clock tbl =
     (case withScores parse clock (select_ordered tbl) of
        Inl e \<Rightarrow> Fail 500 ''Failed to load tasks''
      | Inr tasks \<Rightarrow> Respond 200 tasks)"

section \<open>Creating tasks\<close>

text \<open>
  The fields of a request body; a key that is missing reads as \<^verbatim>\<open>undefined\<close>, and so does
  every key of a missing body (\<^verbatim>\<open>req.body || {}\<close>). A default of a destructuring pattern
  applies to \<^verbatim>\<open>undefined\<close> only.
\<close>

record body =
  b_title :: jsval
  b_description :: jsval
  b_area :: jsval
  b_status :: jsval
  b_bucket :: jsval
  b_priority :: jsval
  b_due_date :: jsval

definition dflt :: "jsval \<Rightarrow> jsval \<Rightarrow> jsval" where
  "dflt v d = (if v = JUndefined then d else v)"

fun is_string :: "jsval \<Rightarrow> bool" where
  "is_string (JStr s) = True"
| "is_string _ = False"

text \<open>
  The parameters of an \<^verbatim>\<open>INSERT INTO tasks\<close>. The second version also stores the four
  sub-scores, \<open>i_scores\<close>; the third version leaves the score columns out.

  The store is a collaborator: \<open>ins\<close> takes the parameters and the state of the store, and
  answers with an error or with the row it has inserted (\<^verbatim>\<open>RETURNING\<close>) and its new state.
\<close>

record insert_params =
  i_title :: jsval
  i_description :: jsval
  i_area :: jsval
  i_status :: jsval
  i_bucket :: jsval
  i_priority :: jsval
  i_due_date :: jsval
  i_scores :: "(int \<times> int \<times> int \<times> int) option"

datatype db_error = DbError

type_synonym 'db insert_fn = "insert_params \<Rightarrow> 'db \<Rightarrow> db_error + row \<times> 'db"

text \<open>\<^verbatim>\<open>POST /tasks\<close> of the second version.\<close>

definition post_tasks_v2 ::
  "'db insert_fn \<Rightarrow> (string \<Rightarrow> int option) \<Rightarrow> int \<Rightarrow> int \<Rightarrow> body \<Rightarrow> 'db \<Rightarrow> row response \<times> 'db"
where
  "post_tasks_v2 ins parse now_u now_r b db =
     (let title = b_title b;
          description = dflt (b_description b) JNull;
          area = dflt (b_area b) JNull;
          status = dflt (b_status b) (JStr ''open'');
          bucket = dflt (b_bucket b) (JStr ''later'');
          priority = dflt (b_priority b) (JNum 3);
          due_date = dflt (b_due_date b) JNull
      in if \<not> truthy title \<or> \<not> is_string title then (Fail 400 ''title is required'', db)
         else
           (case computeScores parse now_u now_r
                   \<lparr> title = title, description = description, bucket = bucket,
                     priority = priority, due_date = due_date, leverage_score = JUndefined,
                     risk_score = JUndefined, friction_score = JUndefined \<rparr> of
              Inl e \<Rightarrow> (Fail 500 ''Internal server error'', db)
            | Inr scores \<Rightarrow>
                (case ins \<lparr> i_title = title, i_description = description, i_area = area,
                            i_status = status, i_bucket = bucket, i_priority = priority,
                            i_due_date = due_date,
                            i_scores = Some (L scores, U scores, R scores, F scores) \<rparr> db of
                   Inl e \<Rightarrow> (Fail 500 ''Internal server error'', db)
                 | Inr (r, db') \<Rightarrow> (Respond 201 r, db'))))"

text \<open>\<^verbatim>\<open>POST /tasks\<close> of the third version; the inserted row is sent with its scores.\<close>

definition post_tasks_v3 ::
  "'db insert_fn \<Rightarrow> (string \<Rightarrow> int option) \<Rightarrow> (nat \<Rightarrow> int \<times> int) \<Rightarrow> body \<Rightarrow> 'db
     \<Rightarrow> (row \<times> scores) response \<times> 'db"
where
  "post_tasks_v3 ins parse clock b db =
     (let title = b_title b;
          description = dflt (b_description b) JNull;
          area = dflt (b_area b) JNull;
          bucket = dflt (b_bucket b) (JStr ''later'');
          status = dflt (b_status b) (JStr ''open'');
          priority = dflt (b_priority b) (JNum 3);
          due_date = dflt (b_due_date b) JNull
      in if \<not> truthy title \<or> \<not> is_string title then (Fail 400 ''title is required'', db)
         else
           (case ins \<lparr> i_title = title, i_description = description, i_area = area,
                       i_status = status, i_bucket = bucket, i_priority = priority,
                       i_due_date = due_date, i_scores = None \<rparr> db of
              Inl e \<Rightarrow> (Fail 500 ''Failed to create task'', db)
            | Inr (r, db') \<Rightarrow>
                (case withScores parse clock [r] of
                   Inr [row] \<Rightarrow> (Respond 201 row, db')
                 | _ \<Rightarrow> (Fail 500 ''Failed to create task'', db'))))"

section \<open>Brain dump\<close>

text \<open>
  A draft is one element of the array the language model returned, after \<^verbatim>\<open>JSON.parse\<close>;
  a key that is missing reads as \<^verbatim>\<open>undefined\<close>. The handlers are modelled from the parsed
  array on: the request to the language model and the parsing of its answer come before.
\<close>

record draft =
  d_title :: jsval
  d_description :: jsval
  d_bucket :: jsval
  d_priority :: jsval
  d_due_date :: jsval
  d_area :: jsval

text \<open>
  The conversions of the runtime that the loop of the second version calls. The text of a
  Date and the number a string converts to are left to the runtime, as \<^verbatim>\<open>Date.parse\<close> is.
  \<open>StringToNumber\<close> answers \<open>None\<close> for a string that is not a finite number (a string
  that converts to a number with a fractional part is outside the model).
\<close>

record runtime =
  Date_parse :: "string \<Rightarrow> int option"
  Date_toString :: "int option \<Rightarrow> string"
  StringToNumber :: "string \<Rightarrow> int option"

fun show_nat :: "nat \<Rightarrow> string" where
  "show_nat n =
     (if n < 10 then [char_of (48 + n)]
      else show_nat (n div 10) @ [char_of (48 + n mod 10)])"

definition show_int :: "int \<Rightarrow> string" where
  "show_int n = (if n < 0 then CHR ''-'' # show_nat (nat (- n)) else show_nat (nat n))"

text \<open>
  \<^verbatim>\<open>String(v)\<close>. An integer prints as its decimal digits (the exponent notation of numbers
  from ten to the 21st on is not modelled).
\<close>

fun ToString :: "runtime \<Rightarrow> jsval \<Rightarrow> string" where
  "ToString rt JUndefined = ''undefined''"
| "ToString rt JNull = ''null''"
| "ToString rt (JBool b) = (if b then ''true'' else ''false'')"
| "ToString rt (JNum n) = show_int n"
| "ToString rt (JStr s) = s"
| "ToString rt (JDate d) = Date_toString rt d"

text \<open>\<^verbatim>\<open>Number(v)\<close>, \<open>None\<close> when the result is not finite.\<close>

fun ToNumber :: "runtime \<Rightarrow> jsval \<Rightarrow> int option" where
  "ToNumber rt JUndefined = None"
| "ToNumber rt JNull = Some 0"
| "ToNumber rt (JBool b) = Some (if b then 1 else 0)"
| "ToNumber rt (JNum n) = Some n"
| "ToNumber rt (JStr s) = StringToNumber rt s"
| "ToNumber rt (JDate d) = d"

text \<open>An exception that reaches the \<^verbatim>\<open>catch\<close> of a handler: thrown by the code or by the store.\<close>

datatype failure = Js js_error | Db db_error

text \<open>
  The \<^verbatim>\<open>for (const t of tasks)\<close> loop of the second version, with \<open>created\<close> and the
  state of the store carried along. The clock readings of the scoring call for the next
  created task are \<open>clock (length created)\<close>.
\<close>

fun brain_dump_loop_v2 ::
  "'db insert_fn \<Rightarrow> runtime \<Rightarrow> (nat \<Rightarrow> int \<times> int) \<Rightarrow> jsval \<Rightarrow> jsval \<Rightarrow> draft list
     \<Rightarrow> row list \<Rightarrow> 'db \<Rightarrow> (failure + row list) \<times> 'db"
where
  "brain_dump_loop_v2 ins rt clock default_bucket default_area [] created db = (Inr created, db)"
| "brain_dump_loop_v2 ins rt clock default_bucket default_area (t # ts) created db =
     (let title = trim (ToString rt (js_or (d_title t) (JStr ''''))) in
      if title = [] then
        brain_dump_loop_v2 ins rt clock default_bucket default_area ts created db
      else
        (let description =
               (if truthy (d_description t) then JStr (ToString rt (d_description t)) else JNull);
             area = (if truthy (d_area t) then JStr (ToString rt (d_area t)) else default_area);
             bucket = js_or (d_bucket t) default_bucket;
             priority = JNum (case ToNumber rt (d_priority t) of None \<Rightarrow> 3 | Some n \<Rightarrow> n);
             due_date = js_or (d_due_date t) JNull
         in case computeScores (Date_parse rt) (fst (clock (length created)))
                   (snd (clock (length created)))
                   \<lparr> title = JStr title, description = description, bucket = bucket,
                     priority = priority, due_date = due_date, leverage_score = JUndefined,
                     risk_score = JUndefined, friction_score = JUndefined \<rparr> of
              Inl e \<Rightarrow> (Inl (Js e), db)
            | Inr scores \<Rightarrow>
                (case ins \<lparr> i_title = JStr title, i_description = description, i_area = area,
                            i_status = JStr ''open'', i_bucket = bucket, i_priority = priority,
                            i_due_date = due_date,
                            i_scores = Some (L scores, U scores, R scores, F scores) \<rparr> db of
                   Inl e \<Rightarrow> (Inl (Db e), db)
                 | Inr (r, db') \<Rightarrow>
                     brain_dump_loop_v2 ins rt clock default_bucket default_area ts
                       (created @ [r]) db')))"

text \<open>
  \<^verbatim>\<open>POST /brain-dump\<close> of the second version from the parsed array on; \<open>b_default_bucket\<close>
  and \<open>b_default_area\<close> are the fields of the request body.
\<close>

definition brain_dump_v2 ::
  "'db insert_fn \<Rightarrow> runtime \<Rightarrow> (nat \<Rightarrow> int \<times> int) \<Rightarrow> jsval \<Rightarrow> jsval \<Rightarrow> draft list \<Rightarrow> 'db
     \<Rightarrow> row list response \<times> 'db"
where
  "brain_dump_v2 ins rt clock b_default_bucket b_default_area tasks db =
     (let default_bucket = dflt b_default_bucket (JStr ''today'');
          default_area = dflt b_default_area JNull
      in if tasks = [] then (Respond 200 [], db)
         else
           (case brain_dump_loop_v2 ins rt clock default_bucket default_area tasks [] db of
              (Inl e, db') \<Rightarrow> (Fail 500 ''Internal server error'', db')
            | (Inr created, db') \<Rightarrow> (Respond 201 created, db')))"

text \<open>
  The loop of the third version; every created row is scored as it is returned:
  \<^verbatim>\<open>withScores(result.rows)[0]\<close>, where \<^verbatim>\<open>withScores\<close> of the one inserted row answers
  one pair.
\<close>

fun brain_dump_loop_v3 ::
  "'db insert_fn \<Rightarrow> (string \<Rightarrow> int option) \<Rightarrow> (nat \<Rightarrow> int \<times> int) \<Rightarrow> jsval \<Rightarrow> jsval \<Rightarrow> draft list
     \<Rightarrow> (row \<times> scores) list \<Rightarrow> 'db \<Rightarrow> (failure + (row \<times> scores) list) \<times> 'db"
where
  "brain_dump_loop_v3 ins parse clock default_bucket default_area [] created db =
     (Inr created, db)"
| "brain_dump_loop_v3 ins parse clock default_bucket default_area (t # ts) created db =
     (let title = d_title t;
          description = dflt (d_description t) JNull;
          bucket = dflt (d_bucket t) default_bucket;
          priority = dflt (d_priority t) (JNum 3);
          due_date = dflt (d_due_date t) JNull;
          area = dflt (d_area t) (js_or default_area JNull)
      in if \<not> truthy title then
           brain_dump_loop_v3 ins parse clock default_bucket default_area ts created db
         else
           (case ins \<lparr> i_title = title, i_description = description, i_area = area,
                       i_status = JStr ''open'', i_bucket = bucket, i_priority = priority,
                       i_due_date = due_date, i_scores = None \<rparr> db of
              Inl e \<Rightarrow> (Inl (Db e), db)
            | Inr (r, db') \<Rightarrow>
                (case withScores parse (\<lambda>i. clock (length created)) [r] of
                   Inl e \<Rightarrow> (Inl (Js e), db')
                 | Inr scored \<Rightarrow>
                     brain_dump_loop_v3 ins parse clock default_bucket default_area ts
                       (created @ [hd scored]) db')))"

definition brain_dump_v3 ::
  "'db insert_fn \<Rightarrow> (string \<Rightarrow> int option) \<Rightarrow> (nat \<Rightarrow> int \<times> int) \<Rightarrow> jsval \<Rightarrow> jsval \<Rightarrow> draft list
     \<Rightarrow> 'db \<Rightarrow> (row \<times> scores) list response \<times> 'db"
where
  "brain_dump_v3 ins parse clock b_default_bucket b_default_area tasks db =
     (let default_bucket = dflt b_default_bucket (JStr ''today'');
          default_area = dflt b_default_area JNull
      in case brain_dump_loop_v3 ins parse clock default_bucket default_area tasks [] db of
           (Inl e, db') \<Rightarrow> (Fail 500 ''Failed to parse brain dump'', db')
         | (Inr created, db') \<Rightarrow> (Respond 200 created, db'))"

text \<open>The drafts for which each loop inserts a task.\<close>

definition titled_v2 :: "runtime \<Rightarrow> draft \<Rightarrow> bool" where
  "titled_v2 rt t \<longleftrightarrow> trim (ToString rt (js_or (d_title t) (JStr ''''))) \<noteq> []"

definition titled_v3 :: "draft \<Rightarrow> bool" where
  "titled_v3 t \<longleftrightarrow> truthy (d_title t)"

section \<open>Stores for the examples\<close>

text \<open>
  A table in memory that accepts every insert, to run the handlers on examples. A parameter
  that has the type of its column is stored as it is (a due date as a Date); any other is
  stored as the empty text, as NULL or as 3. The identity counts the rows, and the
  timestamps of the row are a fixed instant.
\<close>

fun text_param :: "jsval \<Rightarrow> string option" where
  "text_param (JStr s) = Some s"
| "text_param _ = None"

definition text_or_empty :: "jsval \<Rightarrow> string" where
  "text_or_empty v = (case text_param v of None \<Rightarrow> [] | Some s \<Rightarrow> s)"

definition memory_insert :: "row list insert_fn" where
  "memory_insert p tbl =
     (let r = \<lparr> col_id = int (length tbl) + 1, col_title = text_or_empty (i_title p),
                col_description = text_param (i_description p),
                col_area = text_param (i_area p),
                col_status = text_or_empty (i_status p),
                col_bucket = text_or_empty (i_bucket p),
                col_priority = (case i_priority p of JNum n \<Rightarrow> n | _ \<Rightarrow> 3),
                col_leverage_score = map_option (\<lambda>(l, u, r, f). l) (i_scores p),
                col_urgency_score = map_option (\<lambda>(l, u, r, f). u) (i_scores p),
                col_risk_score = map_option (\<lambda>(l, u, r, f). r) (i_scores p),
                col_friction_score = map_option (\<lambda>(l, u, r, f). f) (i_scores p),
                col_score = None,
                col_due_date = (case i_due_date p of JDate d \<Rightarrow> d | _ \<Rightarrow> None),
                col_created_at = 1000, col_updated_at = 1000 \<rparr>
      in Inr (r, tbl @ [r]))"


text \<open>A store that refuses every insert.\<close>

definition refusing_insert :: "row list insert_fn" where
  "refusing_insert p tbl = Inl DbError"

section \<open>The words of the specification\<close>

text \<open>
  "The description contains \<open>w\<close>, case-insensitively": some piece of the description is
  \<open>w\<close> up to the case of its letters.
\<close>

definition contains_ci :: "string \<Rightarrow> string \<Rightarrow> bool" where
  "contains_ci d w \<longleftrightarrow> (\<exists>pre mid post. d = pre @ mid @ post \<and> toLowerCase mid = toLowerCase w)"

text \<open>The friction table of the specification, for a description text.\<close>

definition friction_table :: "string \<Rightarrow> int" where
  "friction_table d =
     (if d = [] then 2
      else if contains_ci d ''tax'' \<or> contains_ci d ''accounting'' \<or> contains_ci d ''legal''
        then 3
      else if contains_ci d ''call'' \<or> contains_ci d ''email'' then 1
      else 2)"

text \<open>
  "The task's current field values": the object of a row with its stored score columns
  blanked, so that only priority, bucket, due date and description are left to score.
\<close>

definition current_fields :: "row \<Rightarrow> task" where
  "current_fields r =
     (js_of_row r)\<lparr>leverage_score := JNull, risk_score := JNull, friction_score := JNull\<rparr>"

text \<open>
  What a read reports for a row, sub-score by sub-score: the stored number when the column
  holds one, and the score of the current fields otherwise; urgency is never read from
  its column. \<open>nu\<close> and \<open>nr\<close> are the two clock readings.
\<close>

definition reported_scores :: "(string \<Rightarrow> int option) \<Rightarrow> int \<Rightarrow> int \<Rightarrow> row \<Rightarrow> scores" where
  "reported_scores parse nu nr r =
     (let l = (case col_leverage_score r of
                 Some stored \<Rightarrow> stored
               | None \<Rightarrow> computeTonyScore_leverageScore (current_fields r));
          u = computeTonyScore_urgencyScore parse nu (current_fields r);
          k = (case col_risk_score r of
                 Some stored \<Rightarrow> stored
               | None \<Rightarrow> computeTonyScore_riskScore parse nr (current_fields r));
          f = (case col_friction_score r of
                 Some stored \<Rightarrow> stored
               | None \<Rightarrow> friction_table (case col_description r of None \<Rightarrow> [] | Some d \<Rightarrow> d))
      in \<lparr> L = l, U = u, R = k, F = f, score = l + u + k - f \<rparr>)"

text \<open>A completed task, and the due date a task is sorted by.\<close>

definition is_done :: "row \<Rightarrow> bool" where
  "is_done r \<longleftrightarrow> col_status r = ''done''"

definition due_key :: "row \<Rightarrow> int" where
  "due_key r = (case col_due_date r of None \<Rightarrow> far_future | Some d \<Rightarrow> d)"

section \<open>What a batch asks of the store\<close>

text \<open>
  The object that the loop of the second version scores for a draft, and the parameters
  of the insert it issues for it: the trimmed title, the description and the area as
  strings, status "open", the bucket and the area of the draft or the defaults, the
  priority as a number or 3, and the four sub-scores of that object at the clock readings
  \<open>nu\<close> and \<open>nr\<close>; its friction is the entry of the friction table for the description.
\<close>

definition draft_task_v2 :: "runtime \<Rightarrow> jsval \<Rightarrow> draft \<Rightarrow> task" where
  "draft_task_v2 rt default_bucket t =
     \<lparr> title = JStr (trim (ToString rt (js_or (d_title t) (JStr '''')))),
       description =
         (if truthy (d_description t) then JStr (ToString rt (d_description t)) else JNull),
       bucket = js_or (d_bucket t) default_bucket,
       priority = JNum (case ToNumber rt (d_priority t) of None \<Rightarrow> 3 | Some n \<Rightarrow> n),
       due_date = js_or (d_due_date t) JNull,
       leverage_score = JUndefined, risk_score = JUndefined, friction_score = JUndefined \<rparr>"

definition draft_insert_v2 ::
  "runtime \<Rightarrow> int \<Rightarrow> int \<Rightarrow> jsval \<Rightarrow> jsval \<Rightarrow> draft \<Rightarrow> insert_params" where
  "draft_insert_v2 rt nu nr default_bucket default_area t =
     \<lparr> i_title = title (draft_task_v2 rt default_bucket t),
       i_description = description (draft_task_v2 rt default_bucket t),
       i_area = (if truthy (d_area t) then JStr (ToString rt (d_area t)) else default_area),
       i_status = JStr ''open'',
       i_bucket = bucket (draft_task_v2 rt default_bucket t),
       i_priority = priority (draft_task_v2 rt default_bucket t),
       i_due_date = due_date (draft_task_v2 rt default_bucket t),
       i_scores =
         Some (leverageScore (draft_task_v2 rt default_bucket t),
               urgencyScore (Date_parse rt) nu (draft_task_v2 rt default_bucket t),
               riskScore (Date_parse rt) nr (draft_task_v2 rt default_bucket t),
               friction_table
                 (if truthy (d_description t) then ToString rt (d_description t) else [])) \<rparr>"

text \<open>The parameters of the insert that the loop of the third version issues for a draft.\<close>

definition draft_insert_v3 :: "jsval \<Rightarrow> jsval \<Rightarrow> draft \<Rightarrow> insert_params" where
  "draft_insert_v3 default_bucket default_area t =
     \<lparr> i_title = d_title t,
       i_description = dflt (d_description t) JNull,
       i_area = dflt (d_area t) (js_or default_area JNull),
       i_status = JStr ''open'',
       i_bucket = dflt (d_bucket t) default_bucket,
       i_priority = dflt (d_priority t) (JNum 3),
       i_due_date = dflt (d_due_date t) JNull,
       i_scores = None \<rparr>"

text \<open>
  Handing a list of inserts to the store one after the other: the rows it returns and its
  last state, or the error of the first insert it refuses and its state at that point.
\<close>

fun insert_all ::
  "'db insert_fn \<Rightarrow> insert_params list \<Rightarrow> 'db \<Rightarrow> db_error \<times> 'db + row list \<times> 'db"
where
  "insert_all ins [] db = Inr ([], db)"
| "insert_all ins (p # ps) db =
     (case ins p db of
        Inl e \<Rightarrow> Inl (e, db)
      | Inr (r, db') \<Rightarrow>
          (case insert_all ins ps db' of
             Inl failed \<Rightarrow> Inl failed
           | Inr (rs, db'') \<Rightarrow> Inr (r # rs, db'')))"

text \<open>
  The inserts of a batch: one for each titled draft, in the order of the batch. In the
  second version the one for the \<open>k\<close>-th titled draft is scored at the clock readings
  \<open>clock k\<close>, counting from \<open>n\<close>.
\<close>

definition batch_inserts_v2 ::
  "runtime \<Rightarrow> (nat \<Rightarrow> int \<times> int) \<Rightarrow> jsval \<Rightarrow> jsval \<Rightarrow> nat \<Rightarrow> draft list \<Rightarrow> insert_params list"
where
  "batch_inserts_v2 rt clock default_bucket default_area n ds =
     map (\<lambda>(k, t). draft_insert_v2 rt (fst (clock k)) (snd (clock k))
                     default_bucket default_area t)
       (enumerate n (filter (titled_v2 rt) ds))"

definition batch_inserts_v3 :: "jsval \<Rightarrow> jsval \<Rightarrow> draft list \<Rightarrow> insert_params list" where
  "batch_inserts_v3 default_bucket default_area ds =
     map (draft_insert_v3 default_bucket default_area) (filter titled_v3 ds)"

text \<open>
  The created tasks that the third version answers for the rows the store returned: the
  \<open>k\<close>-th row, counting from \<open>n\<close>, with the scores a read reports for it at the clock
  readings \<open>clock k\<close>.
\<close>

definition scored_rows ::
  "(string \<Rightarrow> int option) \<Rightarrow> (nat \<Rightarrow> int \<times> int) \<Rightarrow> nat \<Rightarrow> row list \<Rightarrow> (row \<times> scores) list"
where
  "scored_rows parse clock n rows =
     map (\<lambda>(k, r). (r, reported_scores parse (fst (clock k)) (snd (clock k)) r))
       (enumerate n rows)"

section \<open>Example rows, bodies and drafts\<close>

text \<open>
  Rows that carry scores stored earlier: a risk stored while the deadline was far away, a
  leverage stored under another priority, a friction stored under another description.
\<close>

definition stored_risk_task :: task where
  "stored_risk_task = example_task\<lparr>due_date := JDate (Some 36000000), risk_score := JNum 2\<rparr>"

definition stored_leverage_task :: task where
  "stored_leverage_task = example_task\<lparr>leverage_score := JNum 3\<rparr>"

definition stored_friction_task :: task where
  "stored_friction_task =
     example_task\<lparr>description := JStr ''Call about the TAX return'', friction_score := JNum 1\<rparr>"

text \<open>
  A row as the second version stores it, scores included, at a time when its deadline was
  more than a week away; it is read ten hours before the deadline. And the same row
  without stored scores.
\<close>

definition stale_row :: row where
  "stale_row =
     \<lparr> col_id = 1, col_title = ''File return'',
       col_description = Some ''Call about the TAX return'', col_area = None,
       col_status = ''open'', col_bucket = ''later'', col_priority = 1,
       col_leverage_score = Some 5, col_urgency_score = Some 1, col_risk_score = Some 2,
       col_friction_score = Some 3, col_score = None, col_due_date = Some 36000000,
       col_created_at = - 900000000, col_updated_at = - 900000000 \<rparr>"

definition fresh_row :: row where
  "fresh_row =
     stale_row\<lparr>col_leverage_score := None, col_urgency_score := None, col_risk_score := None,
       col_friction_score := None\<rparr>"

text \<open>Rows without stored scores: two buckets, and a completed task created first.\<close>

definition today_row :: row where
  "today_row =
     \<lparr> col_id = 1, col_title = ''Pay invoice'', col_description = None, col_area = None,
       col_status = ''open'', col_bucket = ''today'', col_priority = 1,
       col_leverage_score = None, col_urgency_score = None, col_risk_score = None,
       col_friction_score = None, col_score = None, col_due_date = None,
       col_created_at = 2000, col_updated_at = 2000 \<rparr>"

definition backlog_row :: row where
  "backlog_row = today_row\<lparr>col_id := 2, col_title := ''Sort photos'', col_bucket := ''backlog''\<rparr>"

definition done_row :: row where
  "done_row =
     today_row\<lparr>col_id := 3, col_title := ''Book venue'', col_status := ''done'',
       col_created_at := 1000\<rparr>"

definition due_row :: row where
  "due_row =
     today_row\<lparr>col_id := 4, col_title := ''Renew passport'', col_priority := 2,
       col_due_date := Some 5000\<rparr>"

text \<open>Request bodies: nothing but a title, and nothing at all.\<close>

definition empty_body :: body where
  "empty_body =
     \<lparr> b_title = JUndefined, b_description = JUndefined, b_area = JUndefined,
       b_status = JUndefined, b_bucket = JUndefined, b_priority = JUndefined,
       b_due_date = JUndefined \<rparr>"

definition title_only_body :: "string \<Rightarrow> body" where
  "title_only_body s = empty_body\<lparr>b_title := JStr s\<rparr>"

text \<open>The row the example store makes of a title alone, with and without stored scores.\<close>

definition milk_row :: row where
  "milk_row =
     \<lparr> col_id = 1, col_title = ''Buy milk'', col_description = None, col_area = None,
       col_status = ''open'', col_bucket = ''later'', col_priority = 3,
       col_leverage_score = None, col_urgency_score = None, col_risk_score = None,
       col_friction_score = None, col_score = None, col_due_date = None,
       col_created_at = 1000, col_updated_at = 1000 \<rparr>"

definition milk_row_v2 :: row where
  "milk_row_v2 =
     milk_row\<lparr>col_leverage_score := Some 3, col_urgency_score := Some 1,
       col_risk_score := Some 2, col_friction_score := Some 2\<rparr>"

text \<open>A runtime for the examples, and drafts with and without a title.\<close>

definition example_runtime :: runtime where
  "example_runtime =
     \<lparr> Date_parse = (\<lambda>_. None), Date_toString = (\<lambda>_. ''Invalid Date''),
       StringToNumber = (\<lambda>_. None) \<rparr>"

definition milk_draft :: draft where
  "milk_draft =
     \<lparr> d_title = JStr ''Buy milk'', d_description = JUndefined, d_bucket = JUndefined,
       d_priority = JUndefined, d_due_date = JUndefined, d_area = JUndefined \<rparr>"

definition untitled_draft :: draft where
  "untitled_draft = milk_draft\<lparr>d_title := JUndefined\<rparr>"

definition empty_title_draft :: draft where
  "empty_title_draft = milk_draft\<lparr>d_title := JStr ''''\<rparr>"

definition blank_title_draft :: draft where
  "blank_title_draft = milk_draft\<lparr>d_title := JStr ''  ''\<rparr>"

definition dump_row :: row where
  "dump_row = milk_row\<lparr>col_bucket := ''today''\<rparr>"

definition dump_row_v2 :: row where
  "dump_row_v2 =
     dump_row\<lparr>col_leverage_score := Some 3, col_urgency_score := Some 3,
       col_risk_score := Some 3, col_friction_score := Some 2\<rparr>"

definition blank_row :: row where
  "blank_row = dump_row\<lparr>col_title := ''  ''\<rparr>"

definition nbsp_title_draft :: draft where
  "nbsp_title_draft = milk_draft\<lparr>d_title := JStr [CHR 0xC2, CHR 0xA0]\<rparr>"

section \<open>Properties of urgency\<close>

lemma urgencyScore_absent:
  "\<not> truthy (due_date t) \<Longrightarrow>
   urgencyScore parse now t =
     (if bucket t = JStr ''today'' then 3 else if bucket t = JStr ''this_week'' then 2 else 1)"
  by (simp add: urgencyScore_def)

lemma tony_urgencyScore_absent:
  "\<not> truthy (due_date t) \<Longrightarrow>
   computeTonyScore_urgencyScore parse now t =
     (if bucket t = JStr ''today'' then 3 else if bucket t = JStr ''this_week'' then 2 else 1)"
  by (cases "bucket t") (auto simp: computeTonyScore_urgencyScore_def js_or_def)

lemma urgencyScore_valid:
  "truthy (due_date t) \<Longrightarrow> newDate parse (due_date t) = Some ms \<Longrightarrow>
   urgencyScore parse now t =
     (let h = hours_remaining now ms in
      if h < 0 then 5 else if h \<le> 24 then 4 else if h \<le> 72 then 3
      else if h \<le> 168 then 2 else 1)"
  by (simp add: urgencyScore_def hours_remaining_def Let_def)

lemma tony_urgencyScore_valid:
  "truthy (due_date t) \<Longrightarrow> newDate parse (due_date t) = Some ms \<Longrightarrow>
   computeTonyScore_urgencyScore parse now t =
     (let h = hours_remaining now ms in
      if h < 0 then 5 else if h \<le> 24 then 4 else if h \<le> 72 then 3
      else if h \<le> 168 then 2 else 1)"
  by (simp add: computeTonyScore_urgencyScore_def hours_remaining_def Let_def)

lemma urgencyScore_invalid:
  "truthy (due_date t) \<Longrightarrow> newDate parse (due_date t) = None \<Longrightarrow>
   urgencyScore parse now t = 1"
  by (simp add: urgencyScore_def)

lemma tony_urgencyScore_invalid:
  "truthy (due_date t) \<Longrightarrow> newDate parse (due_date t) = None \<Longrightarrow>
   computeTonyScore_urgencyScore parse now t = 1"
  by (simp add: computeTonyScore_urgencyScore_def)

lemma tony_urgencyScore_eq: "computeTonyScore_urgencyScore parse now t = urgencyScore parse now t"
proof (cases "truthy (due_date t)")
  case False
  then show ?thesis
    by (simp add: tony_urgencyScore_absent urgencyScore_absent)
next
  case True
  show ?thesis
  proof (cases "newDate parse (due_date t)")
    case None
    with True show ?thesis
      by (simp add: tony_urgencyScore_invalid urgencyScore_invalid)
  next
    case (Some ms)
    with True show ?thesis
      by (simp add: tony_urgencyScore_valid urgencyScore_valid)
  qed
qed

text \<open>
  C1. The urgency of a task, in both versions of the scoring code. A due date counts as
  absent when it is falsy (\<^verbatim>\<open>!due\<close>: undefined, null, an empty string, false or 0); then urgency
  is 3 for bucket "today", 2 for "this_week" and 1 otherwise. A due date that is present and
  has a valid time value \<open>ms\<close> gives 5 when the hours remaining are negative, 4 when at most
  24, 3 when at most 72, 2 when at most 168, and 1 otherwise. A due date that is present and
  does not parse gives 1.
\<close>

theorem C1_urgency:
  fixes parse :: "string \<Rightarrow> int option" and now :: int and t :: task
  defines "u2 \<equiv> urgencyScore parse now t"
      and "u3 \<equiv> computeTonyScore_urgencyScore parse now t"
  shows "(\<not> truthy (due_date t) \<longrightarrow>
            (bucket t = JStr ''today'' \<longrightarrow> u2 = 3 \<and> u3 = 3) \<and>
            (bucket t = JStr ''this_week'' \<longrightarrow> u2 = 2 \<and> u3 = 2) \<and>
            (bucket t \<noteq> JStr ''today'' \<and> bucket t \<noteq> JStr ''this_week'' \<longrightarrow> u2 = 1 \<and> u3 = 1))
       \<and> (\<forall>ms. truthy (due_date t) \<and> newDate parse (due_date t) = Some ms \<longrightarrow>
            (hours_remaining now ms < 0 \<longrightarrow> u2 = 5 \<and> u3 = 5) \<and>
            (0 \<le> hours_remaining now ms \<and> hours_remaining now ms \<le> 24 \<longrightarrow> u2 = 4 \<and> u3 = 4) \<and>
            (24 < hours_remaining now ms \<and> hours_remaining now ms \<le> 72 \<longrightarrow> u2 = 3 \<and> u3 = 3) \<and>
            (72 < hours_remaining now ms \<and> hours_remaining now ms \<le> 168 \<longrightarrow> u2 = 2 \<and> u3 = 2) \<and>
            (168 < hours_remaining now ms \<longrightarrow> u2 = 1 \<and> u3 = 1))
       \<and> (truthy (due_date t) \<and> newDate parse (due_date t) = None \<longrightarrow> u2 = 1 \<and> u3 = 1)"
proof (intro conjI impI allI)
  assume a: "\<not> truthy (due_date t)"
  show "bucket t = JStr ''today'' \<Longrightarrow> u2 = 3" "bucket t = JStr ''today'' \<Longrightarrow> u3 = 3"
       "bucket t = JStr ''this_week'' \<Longrightarrow> u2 = 2" "bucket t = JStr ''this_week'' \<Longrightarrow> u3 = 2"
       "bucket t \<noteq> JStr ''today'' \<and> bucket t \<noteq> JStr ''this_week'' \<Longrightarrow> u2 = 1"
       "bucket t \<noteq> JStr ''today'' \<and> bucket t \<noteq> JStr ''this_week'' \<Longrightarrow> u3 = 1"
    using a by (simp_all add: u2_def u3_def urgencyScore_absent tony_urgencyScore_absent)
next
  fix ms
  assume a: "truthy (due_date t) \<and> newDate parse (due_date t) = Some ms"
  then have e2: "u2 = (let h = hours_remaining now ms in
      if h < 0 then 5 else if h \<le> 24 then 4 else if h \<le> 72 then 3
      else if h \<le> 168 then 2 else 1)"
    and e3: "u3 = (let h = hours_remaining now ms in
      if h < 0 then 5 else if h \<le> 24 then 4 else if h \<le> 72 then 3
      else if h \<le> 168 then 2 else 1)"
    by (simp_all add: u2_def u3_def urgencyScore_valid tony_urgencyScore_valid)
  show "hours_remaining now ms < 0 \<Longrightarrow> u2 = 5" "hours_remaining now ms < 0 \<Longrightarrow> u3 = 5"
    by (simp_all add: e2 e3)
  show "0 \<le> hours_remaining now ms \<and> hours_remaining now ms \<le> 24 \<Longrightarrow> u2 = 4"
       "0 \<le> hours_remaining now ms \<and> hours_remaining now ms \<le> 24 \<Longrightarrow> u3 = 4"
    by (simp_all add: e2 e3)
  show "24 < hours_remaining now ms \<and> hours_remaining now ms \<le> 72 \<Longrightarrow> u2 = 3"
       "24 < hours_remaining now ms \<and> hours_remaining now ms \<le> 72 \<Longrightarrow> u3 = 3"
    by (simp_all add: e2 e3)
  show "72 < hours_remaining now ms \<and> hours_remaining now ms \<le> 168 \<Longrightarrow> u2 = 2"
       "72 < hours_remaining now ms \<and> hours_remaining now ms \<le> 168 \<Longrightarrow> u3 = 2"
    by (simp_all add: e2 e3)
  show "168 < hours_remaining now ms \<Longrightarrow> u2 = 1" "168 < hours_remaining now ms \<Longrightarrow> u3 = 1"
    by (simp_all add: e2 e3)
next
  assume a: "truthy (due_date t) \<and> newDate parse (due_date t) = None"
  then show "u2 = 1" "u3 = 1"
    by (simp_all add: u2_def u3_def urgencyScore_invalid tony_urgencyScore_invalid)
qed

theorem C1_urgency_witness:
  "urgencyScore (\<lambda>_. None) 0 example_task = 3
   \<and> computeTonyScore_urgencyScore (\<lambda>_. None) 0 example_task = 3
   \<and> urgencyScore (\<lambda>_. None) 0 (example_task\<lparr>due_date := JDate (Some 36000000)\<rparr>) = 4
   \<and> computeTonyScore_urgencyScore (\<lambda>_. None) 0
        (example_task\<lparr>due_date := JDate (Some 36000000)\<rparr>) = 4
   \<and> urgencyScore (\<lambda>_. None) 0 (example_task\<lparr>due_date := JStr ''soon''\<rparr>) = 1
   \<and> computeTonyScore_urgencyScore (\<lambda>_. None) 0
        (example_task\<lparr>due_date := JStr ''soon''\<rparr>) = 1"
  using C1_urgency [where t = example_task and parse = "\<lambda>_. None" and now = 0]
    C1_urgency [where t = "example_task\<lparr>due_date := JDate (Some 36000000)\<rparr>"
      and parse = "\<lambda>_. None" and now = 0]
    C1_urgency [where t = "example_task\<lparr>due_date := JStr ''soon''\<rparr>"
      and parse = "\<lambda>_. None" and now = 0]
  by (simp add: example_task_def hours_remaining_def)

lemma urgencyScore_range: "1 \<le> urgencyScore parse now t \<and> urgencyScore parse now t \<le> 5"
  by (simp add: urgencyScore_def Let_def split: option.split)

lemma hours_remaining_mono: "t1 \<le> t2 \<Longrightarrow> hours_remaining now t1 \<le> hours_remaining now t2"
  by (simp add: hours_remaining_def divide_right_mono)

lemma urgencyScore_antitone:
  assumes "truthy d1" and "truthy d2"
    and "newDate parse d1 = Some t1" and "newDate parse d2 = Some t2"
    and "t1 \<le> t2"
  shows "urgencyScore parse now (t\<lparr>due_date := d2\<rparr>) \<le> urgencyScore parse now (t\<lparr>due_date := d1\<rparr>)"
proof -
  have h: "hours_remaining now t1 \<le> hours_remaining now t2"
    using assms(5) by (rule hours_remaining_mono)
  have e1: "urgencyScore parse now (t\<lparr>due_date := d1\<rparr>) =
      (let h = hours_remaining now t1 in
       if h < 0 then 5 else if h \<le> 24 then 4 else if h \<le> 72 then 3
       else if h \<le> 168 then 2 else 1)"
    using assms(1,3) by (simp add: urgencyScore_valid)
  have e2: "urgencyScore parse now (t\<lparr>due_date := d2\<rparr>) =
      (let h = hours_remaining now t2 in
       if h < 0 then 5 else if h \<le> 24 then 4 else if h \<le> 72 then 3
       else if h \<le> 168 then 2 else 1)"
    using assms(2,4) by (simp add: urgencyScore_valid)
  show ?thesis
    unfolding e1 e2 Let_def using h by auto
qed

text \<open>
  C10. For a fixed clock reading and fixed other fields, urgency is antitone in the due
  date: when both due dates are present and have valid time values \<open>t1 \<le> t2\<close>, the
  urgency for the earlier one is at least the urgency for the later one, in both versions.
\<close>

theorem C10_urgency_antitone:
  assumes "truthy d1" and "truthy d2"
    and "newDate parse d1 = Some t1" and "newDate parse d2 = Some t2"
    and "t1 \<le> t2"
  shows "urgencyScore parse now (t\<lparr>due_date := d2\<rparr>)
           \<le> urgencyScore parse now (t\<lparr>due_date := d1\<rparr>)
       \<and> computeTonyScore_urgencyScore parse now (t\<lparr>due_date := d2\<rparr>)
           \<le> computeTonyScore_urgencyScore parse now (t\<lparr>due_date := d1\<rparr>)"
  using urgencyScore_antitone [OF assms] by (simp add: tony_urgencyScore_eq)

theorem C10_urgency_antitone_witness:
  "urgencyScore (\<lambda>_. None) 0 (example_task\<lparr>due_date := JDate (Some 500000000)\<rparr>)
     \<le> urgencyScore (\<lambda>_. None) 0 (example_task\<lparr>due_date := JDate (Some 36000000)\<rparr>)
   \<and> computeTonyScore_urgencyScore (\<lambda>_. None) 0
        (example_task\<lparr>due_date := JDate (Some 500000000)\<rparr>)
     \<le> computeTonyScore_urgencyScore (\<lambda>_. None) 0
        (example_task\<lparr>due_date := JDate (Some 36000000)\<rparr>)"
  using C10_urgency_antitone [where ?d1.0 = "JDate (Some 36000000)"
      and ?d2.0 = "JDate (Some 500000000)" and parse = "\<lambda>_. None" and ?t1.0 = 36000000
      and ?t2.0 = 500000000 and now = 0 and t = example_task]
  by simp

section \<open>Properties of risk\<close>

lemma tony_riskScore_stored:
  "risk_score t = JNum n \<Longrightarrow> computeTonyScore_riskScore parse now t = n"
  by (simp add: computeTonyScore_riskScore_def)

lemma tony_riskScore_fresh:
  "\<forall>n. risk_score t \<noteq> JNum n \<Longrightarrow>
   computeTonyScore_riskScore parse now t = riskScore parse now t"
  by (cases "risk_score t")
     (simp_all add: computeTonyScore_riskScore_def riskScore_def tony_urgencyScore_eq)

lemma example_task_urgency:
  "urgencyScore (\<lambda>_. None) 0 example_task = 3"
  "computeTonyScore_urgencyScore (\<lambda>_. None) 0 example_task = 3"
  by (simp_all add: example_task_def urgencyScore_def computeTonyScore_urgencyScore_def
      js_or_def)

text \<open>
  C4, as the code has it. In the second version risk is a function of the urgency read at
  the same instant: 4 when urgency is at least 4, 3 when it is 3, 2 otherwise, so it lies
  in 2..4. The third version does the same when the row's \<^verbatim>\<open>risk_score\<close> column holds no
  number, and returns the stored number otherwise.
\<close>

theorem C4_risk:
  fixes parse :: "string \<Rightarrow> int option" and now :: int and t :: task
  defines "u2 \<equiv> urgencyScore parse now t" and "r2 \<equiv> riskScore parse now t"
      and "u3 \<equiv> computeTonyScore_urgencyScore parse now t"
      and "r3 \<equiv> computeTonyScore_riskScore parse now t"
  shows "(4 \<le> u2 \<longrightarrow> r2 = 4) \<and> (u2 = 3 \<longrightarrow> r2 = 3) \<and> (u2 < 4 \<and> u2 \<noteq> 3 \<longrightarrow> r2 = 2)
       \<and> 2 \<le> r2 \<and> r2 \<le> 4
       \<and> ((\<forall>n. risk_score t \<noteq> JNum n) \<longrightarrow>
            (4 \<le> u3 \<longrightarrow> r3 = 4) \<and> (u3 = 3 \<longrightarrow> r3 = 3) \<and> (u3 < 4 \<and> u3 \<noteq> 3 \<longrightarrow> r3 = 2)
            \<and> 2 \<le> r3 \<and> r3 \<le> 4)
       \<and> (\<forall>n. risk_score t = JNum n \<longrightarrow> r3 = n)"
proof -
  have v2: "(4 \<le> u2 \<longrightarrow> r2 = 4) \<and> (u2 = 3 \<longrightarrow> r2 = 3) \<and> (u2 < 4 \<and> u2 \<noteq> 3 \<longrightarrow> r2 = 2)
       \<and> 2 \<le> r2 \<and> r2 \<le> 4"
    by (simp add: u2_def r2_def riskScore_def Let_def)
  have v3: "(4 \<le> u3 \<longrightarrow> r3 = 4) \<and> (u3 = 3 \<longrightarrow> r3 = 3) \<and> (u3 < 4 \<and> u3 \<noteq> 3 \<longrightarrow> r3 = 2)
       \<and> 2 \<le> r3 \<and> r3 \<le> 4" if "\<forall>n. risk_score t \<noteq> JNum n"
    using v2 tony_riskScore_fresh [OF that, of parse now]
    by (simp add: u2_def r2_def u3_def r3_def tony_urgencyScore_eq)
  have st: "\<forall>n. risk_score t = JNum n \<longrightarrow> r3 = n"
    by (simp add: r3_def tony_riskScore_stored)
  from v2 v3 st show ?thesis by blast
qed

theorem C4_risk_witness:
  "riskScore (\<lambda>_. None) 0 example_task = 3
   \<and> computeTonyScore_riskScore (\<lambda>_. None) 0 example_task = 3
   \<and> computeTonyScore_riskScore (\<lambda>_. None) 0 stored_risk_task = 2"
  using C4_risk [where t = example_task and parse = "\<lambda>_. None" and now = 0]
    C4_risk [where t = stored_risk_task and parse = "\<lambda>_. None" and now = 0]
    example_task_urgency
  by (simp add: example_task_def stored_risk_task_def)

text \<open>
  C4 as written fails on the third version: a row due in ten hours has urgency 4,
  and its stored risk 2 is reported where the table gives 4.
\<close>

theorem C4_risk_counterexample:
  "computeTonyScore_urgencyScore (\<lambda>_. None) 0 stored_risk_task = 4
   \<and> computeTonyScore_riskScore (\<lambda>_. None) 0 stored_risk_task = 2"
  by (simp add: stored_risk_task_def example_task_def computeTonyScore_urgencyScore_def
      computeTonyScore_riskScore_def)

section \<open>Properties of leverage\<close>

lemma leverageScore_number:
  "priority t = JNum n \<Longrightarrow> n \<noteq> 0 \<Longrightarrow> leverageScore t = 6 - min (max n 1) 5"
  by (simp add: leverageScore_def num_or_def)

lemma leverageScore_other:
  "\<forall>n. priority t \<noteq> JNum n \<Longrightarrow>
   leverageScore t = 6 - min (max (num_or (parseInt (js_or (priority t) (JStr ''3''))) 3) 1) 5"
  by (cases "priority t") (simp_all add: leverageScore_def)

lemma parseInt_three: "parseInt_str ''3'' = Some 3"
  by code_simp

lemma parseInt_examples:
  "parseInt_str ''2'' = Some 2" "parseInt_str ''soon'' = None"
  "parseInt_str (CHR 0xC2 # CHR 0xA0 # ''2'') = Some 2" "parseInt_str '' -7px'' = Some (- 7)"
  by code_simp+

lemma tony_leverageScore_stored:
  "leverage_score t = JNum l \<Longrightarrow> computeTonyScore_leverageScore t = l"
  by (simp add: computeTonyScore_leverageScore_def)

lemma tony_leverageScore_fresh:
  "\<forall>l. leverage_score t \<noteq> JNum l \<Longrightarrow>
   computeTonyScore_leverageScore t =
     6 - min (max (case priority t of JNum n \<Rightarrow> n | _ \<Rightarrow> 3) 1) 5"
  by (cases "leverage_score t") (simp_all add: computeTonyScore_leverageScore_def)

text \<open>
  C2, as the code has it. Second version: a numeric priority other than 0 is clamped into
  1..5 and leverage is 6 minus the result, so leverage is \<open>6 - priority\<close> for priorities
  1 to 5; a priority that is not a number is read as a decimal integer (an absent or empty
  one as "3") and handled the same way, and counts as 3 when it has no digits. Third
  version: a number in the row's \<^verbatim>\<open>leverage_score\<close> column is returned as it is;
  otherwise a numeric priority is clamped into 1..5 and leverage is 6 minus the result,
  and a priority that is not a number counts as 3.
\<close>

theorem C2_leverage:
  fixes t :: task
  defines "parsed \<equiv> parseInt (js_or (priority t) (JStr ''3''))"
  shows "(\<forall>n. priority t = JNum n \<and> n \<noteq> 0 \<longrightarrow> leverageScore t = 6 - min (max n 1) 5)
       \<and> (\<forall>n. priority t = JNum n \<and> 1 \<le> n \<and> n \<le> 5 \<longrightarrow> leverageScore t = 6 - n)
       \<and> ((\<forall>n. priority t \<noteq> JNum n) \<longrightarrow>
            (parsed = None \<longrightarrow> leverageScore t = 3)
            \<and> (\<forall>n. parsed = Some n \<and> n \<noteq> 0 \<longrightarrow> leverageScore t = 6 - min (max n 1) 5)
            \<and> (\<not> truthy (priority t) \<longrightarrow> leverageScore t = 3))
       \<and> (\<forall>l. leverage_score t = JNum l \<longrightarrow> computeTonyScore_leverageScore t = l)
       \<and> ((\<forall>l. leverage_score t \<noteq> JNum l) \<longrightarrow>
            (\<forall>n. priority t = JNum n \<longrightarrow>
               computeTonyScore_leverageScore t = 6 - min (max n 1) 5)
            \<and> (\<forall>n. priority t = JNum n \<and> 1 \<le> n \<and> n \<le> 5 \<longrightarrow>
                 computeTonyScore_leverageScore t = 6 - n)
            \<and> ((\<forall>n. priority t \<noteq> JNum n) \<longrightarrow> computeTonyScore_leverageScore t = 3))"
proof (intro conjI impI allI)
  fix n assume "priority t = JNum n \<and> n \<noteq> 0"
  then show "leverageScore t = 6 - min (max n 1) 5"
    by (simp add: leverageScore_number)
next
  fix n assume "priority t = JNum n \<and> 1 \<le> n \<and> n \<le> 5"
  then show "leverageScore t = 6 - n"
    by (simp add: leverageScore_number)
next
  assume a: "\<forall>n. priority t \<noteq> JNum n"
  show "leverageScore t = 3" if "parsed = None"
    using that leverageScore_other [OF a] by (simp add: parsed_def num_or_def)
  show "leverageScore t = 6 - min (max n 1) 5" if "parsed = Some n \<and> n \<noteq> 0" for n
    using that leverageScore_other [OF a] by (simp add: parsed_def num_or_def)
  show "leverageScore t = 3" if "\<not> truthy (priority t)"
    using that leverageScore_other [OF a] by (simp add: js_or_def parseInt_three num_or_def)
next
  fix l assume "leverage_score t = JNum l"
  then show "computeTonyScore_leverageScore t = l"
    by (rule tony_leverageScore_stored)
next
  assume a: "\<forall>l. leverage_score t \<noteq> JNum l"
  show "computeTonyScore_leverageScore t = 6 - min (max n 1) 5" if "priority t = JNum n" for n
    using that tony_leverageScore_fresh [OF a] by simp
  show "computeTonyScore_leverageScore t = 6 - n" if "priority t = JNum n \<and> 1 \<le> n \<and> n \<le> 5" for n
    using that tony_leverageScore_fresh [OF a] by simp
  show "computeTonyScore_leverageScore t = 3" if "\<forall>n. priority t \<noteq> JNum n"
    using that tony_leverageScore_fresh [OF a] by (cases "priority t") simp_all
qed

theorem C2_leverage_witness:
  "leverageScore example_task = 5
   \<and> leverageScore (example_task\<lparr>priority := JNum 9\<rparr>) = 1
   \<and> leverageScore (example_task\<lparr>priority := JStr ''2''\<rparr>) = 4
   \<and> leverageScore (example_task\<lparr>priority := JStr ''soon''\<rparr>) = 3
   \<and> leverageScore (example_task\<lparr>priority := JStr (CHR 0xC2 # CHR 0xA0 # ''2'')\<rparr>) = 4
   \<and> leverageScore (example_task\<lparr>priority := JNull\<rparr>) = 3
   \<and> computeTonyScore_leverageScore example_task = 5
   \<and> computeTonyScore_leverageScore (example_task\<lparr>priority := JNum 0\<rparr>) = 5
   \<and> computeTonyScore_leverageScore (example_task\<lparr>priority := JStr ''2''\<rparr>) = 3
   \<and> computeTonyScore_leverageScore stored_leverage_task = 3"
  using C2_leverage [where t = example_task]
    C2_leverage [where t = "example_task\<lparr>priority := JNum 9\<rparr>"]
    C2_leverage [where t = "example_task\<lparr>priority := JStr ''2''\<rparr>"]
    C2_leverage [where t = "example_task\<lparr>priority := JStr ''soon''\<rparr>"]
    C2_leverage [where t = "example_task\<lparr>priority := JStr (CHR 0xC2 # CHR 0xA0 # ''2'')\<rparr>"]
    C2_leverage [where t = "example_task\<lparr>priority := JNull\<rparr>"]
    C2_leverage [where t = "example_task\<lparr>priority := JNum 0\<rparr>"]
    C2_leverage [where t = stored_leverage_task]
  by (simp add: example_task_def stored_leverage_task_def js_or_def parseInt_three
      parseInt_examples)

text \<open>
  C2 as written fails. On the third version, the row has priority 1, and its stored
  leverage 3 is reported where \<open>6 - 1 = 5\<close> is claimed. And the two versions do not agree
  on a priority that is not a number: for the string "2" the second version answers
  \<open>6 - 2 = 4\<close>, the third \<open>6 - 3 = 3\<close>.
\<close>

theorem C2_leverage_counterexample:
  "priority stored_leverage_task = JNum 1
   \<and> computeTonyScore_leverageScore stored_leverage_task = 3
   \<and> leverageScore (example_task\<lparr>priority := JStr ''2''\<rparr>) = 4
   \<and> computeTonyScore_leverageScore (example_task\<lparr>priority := JStr ''2''\<rparr>) = 3"
  by (simp add: stored_leverage_task_def example_task_def computeTonyScore_leverageScore_def
      leverageScore_def js_or_def num_or_def parseInt_examples)

text \<open>Priority 0 in the second version: \<^verbatim>\<open>p || 3\<close> takes it for 3 before the clamp.\<close>

lemma leverageScore_zero: "leverageScore (example_task\<lparr>priority := JNum 0\<rparr>) = 3"
  by (simp add: leverageScore_def num_or_def)

section \<open>Properties of friction\<close>

lemma startsWith_iff: "startsWith s w \<longleftrightarrow> (\<exists>post. s = w @ post)"
  by (induction s w rule: startsWith.induct) auto

lemma str_includes_iff: "str_includes s w \<longleftrightarrow> (\<exists>pre post. s = pre @ w @ post)"
proof (induction s)
  case Nil
  then show ?case by simp
next
  case (Cons c cs)
  show ?case
  proof
    assume "str_includes (c # cs) w"
    then consider "startsWith (c # cs) w" | "str_includes cs w" by auto
    then show "\<exists>pre post. c # cs = pre @ w @ post"
    proof cases
      case 1
      then obtain post where "c # cs = w @ post" by (auto simp: startsWith_iff)
      then have "c # cs = [] @ w @ post" by simp
      then show ?thesis by blast
    next
      case 2
      then obtain pre post where "cs = pre @ w @ post" using Cons.IH by auto
      then have "c # cs = (c # pre) @ w @ post" by simp
      then show ?thesis by blast
    qed
  next
    assume "\<exists>pre post. c # cs = pre @ w @ post"
    then obtain pre post where e: "c # cs = pre @ w @ post" by auto
    show "str_includes (c # cs) w"
    proof (cases pre)
      case Nil
      with e have "startsWith (c # cs) w" by (auto simp: startsWith_iff)
      then show ?thesis by simp
    next
      case (Cons p ps)
      with e have "cs = ps @ w @ post" by simp
      then have "str_includes cs w" using Cons.IH by auto
      then show ?thesis by simp
    qed
  qed
qed

lemma contains_ci_iff: "contains_ci d w \<longleftrightarrow> str_includes (toLowerCase d) (toLowerCase w)"
proof
  assume "contains_ci d w"
  then obtain pre mid post where "d = pre @ mid @ post" "toLowerCase mid = toLowerCase w"
    by (auto simp: contains_ci_def)
  then have "toLowerCase d = toLowerCase pre @ toLowerCase w @ toLowerCase post"
    by (simp add: toLowerCase_def)
  then show "str_includes (toLowerCase d) (toLowerCase w)"
    unfolding str_includes_iff by blast
next
  assume "str_includes (toLowerCase d) (toLowerCase w)"
  then obtain pre post where "map lower_char d = pre @ toLowerCase w @ post"
    by (auto simp: str_includes_iff toLowerCase_def)
  then have "\<exists>a r. d = a @ r \<and> pre = map lower_char a
      \<and> toLowerCase w @ post = map lower_char r"
    by (simp only: map_eq_append_conv)
  then obtain a r where ar: "d = a @ r" "toLowerCase w @ post = map lower_char r"
    by blast
  from ar(2) have "\<exists>b c. r = b @ c \<and> toLowerCase w = map lower_char b
      \<and> post = map lower_char c"
    by (simp only: append_eq_map_conv)
  then obtain b c where bc: "r = b @ c" "toLowerCase w = map lower_char b"
    by blast
  from ar(1) bc have "d = a @ b @ c \<and> toLowerCase b = toLowerCase w"
    by (simp add: toLowerCase_def)
  then show "contains_ci d w"
    unfolding contains_ci_def by blast
qed

lemma toLowerCase_needles:
  "toLowerCase ''tax'' = ''tax''" "toLowerCase ''accounting'' = ''accounting''"
  "toLowerCase ''legal'' = ''legal''" "toLowerCase ''call'' = ''call''"
  "toLowerCase ''email'' = ''email''"
  by (simp_all add: toLowerCase_def lower_char_def)

text \<open>The equation by which the containment test is computed.\<close>

declare contains_ci_iff [code]

lemma frictionScore_absent: "\<not> truthy (description t) \<Longrightarrow> frictionScore t = Inr 2"
  by (simp add: frictionScore_def js_or_def toLowerCase_def)

lemma frictionScore_text: "description t = JStr d \<Longrightarrow> frictionScore t = Inr (friction_table d)"
  by (simp add: frictionScore_def js_or_def friction_table_def contains_ci_iff
      toLowerCase_needles)
     (simp add: toLowerCase_def)

lemma tony_frictionScore_stored:
  "friction_score t = JNum f \<Longrightarrow> computeTonyScore_frictionScore t = Inr f"
  by (simp add: computeTonyScore_frictionScore_def)

lemma tony_frictionScore_fresh:
  "\<forall>f. friction_score t \<noteq> JNum f \<Longrightarrow> computeTonyScore_frictionScore t = frictionScore t"
  by (cases "friction_score t")
     (simp_all add: computeTonyScore_frictionScore_def frictionScore_def)

text \<open>
  C3, as the code has it. Second version: an absent or empty description gives friction
  2; a description text gives 3 when it contains "tax", "accounting" or "legal" in any
  case, otherwise 1 when it contains "call" or "email", otherwise 2. Third version: a
  number in the row's \<^verbatim>\<open>friction_score\<close> column is returned as it is; otherwise the same
  rules apply.
\<close>

theorem C3_friction:
  "(\<not> truthy (description t) \<longrightarrow> frictionScore t = Inr 2)
   \<and> (\<forall>d. description t = JStr d \<longrightarrow>
         frictionScore t =
           Inr (if d = [] then 2
                else if contains_ci d ''tax'' \<or> contains_ci d ''accounting''
                        \<or> contains_ci d ''legal'' then 3
                else if contains_ci d ''call'' \<or> contains_ci d ''email'' then 1
                else 2))
   \<and> (\<forall>f. friction_score t = JNum f \<longrightarrow> computeTonyScore_frictionScore t = Inr f)
   \<and> ((\<forall>f. friction_score t \<noteq> JNum f) \<longrightarrow>
        (\<not> truthy (description t) \<longrightarrow> computeTonyScore_frictionScore t = Inr 2)
        \<and> (\<forall>d. description t = JStr d \<longrightarrow>
              computeTonyScore_frictionScore t =
                Inr (if d = [] then 2
                     else if contains_ci d ''tax'' \<or> contains_ci d ''accounting''
                             \<or> contains_ci d ''legal'' then 3
                     else if contains_ci d ''call'' \<or> contains_ci d ''email'' then 1
                     else 2)))"
  using frictionScore_absent [of t] frictionScore_text [of t]
    tony_frictionScore_stored [of t] tony_frictionScore_fresh [of t]
  by (simp add: friction_table_def)

lemma contains_ci_examples:
  "contains_ci ''Call about the TAX return'' ''tax''"
  "\<not> contains_ci ''eMail Bob'' ''tax''" "\<not> contains_ci ''eMail Bob'' ''accounting''"
  "\<not> contains_ci ''eMail Bob'' ''legal''" "contains_ci ''eMail Bob'' ''email''"
  by (simp_all add: contains_ci_iff toLowerCase_def lower_char_def)

theorem C3_friction_witness:
  "frictionScore example_task = Inr 2
   \<and> frictionScore (example_task\<lparr>description := JNull\<rparr>) = Inr 2
   \<and> frictionScore (example_task\<lparr>description := JStr ''Call about the TAX return''\<rparr>) = Inr 3
   \<and> frictionScore (example_task\<lparr>description := JStr ''eMail Bob''\<rparr>) = Inr 1
   \<and> computeTonyScore_frictionScore (example_task\<lparr>description := JStr ''eMail Bob''\<rparr>) = Inr 1
   \<and> computeTonyScore_frictionScore stored_friction_task = Inr 1"
  using C3_friction [where t = example_task]
    C3_friction [where t = "example_task\<lparr>description := JNull\<rparr>"]
    C3_friction [where t = "example_task\<lparr>description := JStr ''Call about the TAX return''\<rparr>"]
    C3_friction [where t = "example_task\<lparr>description := JStr ''eMail Bob''\<rparr>"]
    C3_friction [where t = stored_friction_task]
    contains_ci_examples
  by (simp add: example_task_def stored_friction_task_def)

text \<open>
  C3 as written fails on the third version: the description contains "TAX", and
  the stored friction 1 is reported where 3 is claimed.
\<close>

theorem C3_friction_counterexample:
  "description stored_friction_task = JStr ''Call about the TAX return''
   \<and> contains_ci ''Call about the TAX return'' ''tax''
   \<and> computeTonyScore_frictionScore stored_friction_task = Inr 1"
  by (simp add: stored_friction_task_def example_task_def computeTonyScore_frictionScore_def
      contains_ci_iff toLowerCase_def lower_char_def)

section \<open>Properties of the composite score\<close>

lemma computeScores_Inr:
  "computeScores parse nu nr t = Inr s \<longleftrightarrow>
     (\<exists>f. frictionScore t = Inr f \<and>
        s = \<lparr> L = leverageScore t, U = urgencyScore parse nu t, R = riskScore parse nr t,
              F = f,
              score = leverageScore t + urgencyScore parse nu t + riskScore parse nr t - f \<rparr>)"
  by (cases "frictionScore t") (auto simp: computeScores_def Let_def)

lemma computeTonyScore_Inr:
  "computeTonyScore parse nu nr t = Inr s \<longleftrightarrow>
     (\<exists>f. computeTonyScore_frictionScore t = Inr f \<and>
        s = \<lparr> L = computeTonyScore_leverageScore t,
              U = computeTonyScore_urgencyScore parse nu t,
              R = computeTonyScore_riskScore parse nr t,
              F = f,
              score = computeTonyScore_leverageScore t
                + computeTonyScore_urgencyScore parse nu t
                + computeTonyScore_riskScore parse nr t - f \<rparr>)"
  by (cases "computeTonyScore_frictionScore t") (auto simp: computeTonyScore_def Let_def)

lemma frictionScore_returns:
  "\<not> truthy (description t) \<or> (\<exists>d. description t = JStr d) \<Longrightarrow> \<exists>f. frictionScore t = Inr f"
  using frictionScore_absent [of t] frictionScore_text [of t] by auto

lemma worked_example_v2:
  assumes "priority t = JNum 1" and "bucket t = JStr ''today''"
    and "\<not> truthy (due_date t)" and "description t = JStr ''''"
  shows "computeScores parse nu nr t = Inr \<lparr> L = 5, U = 3, R = 3, F = 2, score = 9 \<rparr>"
proof -
  have "leverageScore t = 5"
    using assms(1) by (simp add: leverageScore_number)
  moreover have "urgencyScore parse nu t = 3" "urgencyScore parse nr t = 3"
    using assms(2,3) by (simp_all add: urgencyScore_absent)
  moreover have "frictionScore t = Inr 2"
    using assms(4) by (simp add: frictionScore_absent)
  ultimately show ?thesis
    by (simp add: computeScores_Inr riskScore_def)
qed

lemma worked_example_v3:
  assumes "priority t = JNum 1" and "bucket t = JStr ''today''"
    and "\<not> truthy (due_date t)" and "description t = JStr ''''"
    and "\<forall>n. leverage_score t \<noteq> JNum n" and "\<forall>n. risk_score t \<noteq> JNum n"
    and "\<forall>n. friction_score t \<noteq> JNum n"
  shows "computeTonyScore parse nu nr t = Inr \<lparr> L = 5, U = 3, R = 3, F = 2, score = 9 \<rparr>"
proof -
  have "computeTonyScore_leverageScore t = 5"
    using assms(1,5) by (simp add: tony_leverageScore_fresh)
  moreover have "computeTonyScore_urgencyScore parse nu t = 3" "urgencyScore parse nr t = 3"
    using assms(2,3) by (simp_all add: tony_urgencyScore_absent urgencyScore_absent)
  moreover have "computeTonyScore_riskScore parse nr t = riskScore parse nr t"
    using assms(6) by (rule tony_riskScore_fresh)
  moreover have "computeTonyScore_frictionScore t = Inr 2"
    using assms(4,7) by (simp add: tony_frictionScore_fresh frictionScore_absent)
  ultimately show ?thesis
    by (simp add: computeTonyScore_Inr riskScore_def)
qed

text \<open>
  C5. Whatever \<^verbatim>\<open>computeScores\<close> and \<^verbatim>\<open>computeTonyScore\<close> return, the composite is
  exactly \<open>L + U + R - F\<close> of the four sub-scores returned with it, with no clamping, and
  the sub-scores are the values of the four scoring functions; a result is returned whenever
  the description is absent or a text. For priority 1, bucket "today", no due date and an
  empty description the result is leverage 5, urgency 3, risk 3, friction 2 and score 9
  (in the third version for a row that carries no stored scores).
\<close>

theorem C5_composite:
  "(\<forall>s. computeScores parse nu nr t = Inr s \<longrightarrow>
      score s = L s + U s + R s - F s
      \<and> L s = leverageScore t \<and> U s = urgencyScore parse nu t
      \<and> R s = riskScore parse nr t \<and> frictionScore t = Inr (F s))
   \<and> (\<forall>s. computeTonyScore parse nu nr t = Inr s \<longrightarrow>
      score s = L s + U s + R s - F s
      \<and> L s = computeTonyScore_leverageScore t
      \<and> U s = computeTonyScore_urgencyScore parse nu t
      \<and> R s = computeTonyScore_riskScore parse nr t
      \<and> computeTonyScore_frictionScore t = Inr (F s))
   \<and> (\<not> truthy (description t) \<or> (\<exists>d. description t = JStr d) \<longrightarrow>
        (\<exists>s. computeScores parse nu nr t = Inr s)
        \<and> (\<exists>s. computeTonyScore parse nu nr t = Inr s))
   \<and> (priority t = JNum 1 \<and> bucket t = JStr ''today'' \<and> \<not> truthy (due_date t)
        \<and> description t = JStr '''' \<longrightarrow>
        computeScores parse nu nr t = Inr \<lparr> L = 5, U = 3, R = 3, F = 2, score = 9 \<rparr>
        \<and> ((\<forall>n. leverage_score t \<noteq> JNum n) \<and> (\<forall>n. risk_score t \<noteq> JNum n)
             \<and> (\<forall>n. friction_score t \<noteq> JNum n) \<longrightarrow>
            computeTonyScore parse nu nr t = Inr \<lparr> L = 5, U = 3, R = 3, F = 2, score = 9 \<rparr>))"
proof (intro conjI allI impI)
  fix s assume a: "computeScores parse nu nr t = Inr s"
  then show "score s = L s + U s + R s - F s" "L s = leverageScore t"
    "U s = urgencyScore parse nu t" "R s = riskScore parse nr t" "frictionScore t = Inr (F s)"
    by (auto simp: computeScores_Inr)
next
  fix s assume a: "computeTonyScore parse nu nr t = Inr s"
  then show "score s = L s + U s + R s - F s" "L s = computeTonyScore_leverageScore t"
    "U s = computeTonyScore_urgencyScore parse nu t"
    "R s = computeTonyScore_riskScore parse nr t"
    "computeTonyScore_frictionScore t = Inr (F s)"
    by (auto simp: computeTonyScore_Inr)
next
  assume a: "\<not> truthy (description t) \<or> (\<exists>d. description t = JStr d)"
  then obtain f where f: "frictionScore t = Inr f"
    using frictionScore_returns by blast
  then show "\<exists>s. computeScores parse nu nr t = Inr s"
    by (simp add: computeScores_Inr)
  show "\<exists>s. computeTonyScore parse nu nr t = Inr s"
  proof (cases "\<exists>n. friction_score t = JNum n")
    case True
    then show ?thesis
      by (auto simp: computeTonyScore_Inr tony_frictionScore_stored)
  next
    case False
    then show ?thesis
      using f by (simp add: computeTonyScore_Inr tony_frictionScore_fresh)
  qed
next
  assume a: "priority t = JNum 1 \<and> bucket t = JStr ''today'' \<and> \<not> truthy (due_date t)
        \<and> description t = JStr ''''"
  then show "computeScores parse nu nr t = Inr \<lparr> L = 5, U = 3, R = 3, F = 2, score = 9 \<rparr>"
    by (simp add: worked_example_v2)
  assume "(\<forall>n. leverage_score t \<noteq> JNum n) \<and> (\<forall>n. risk_score t \<noteq> JNum n)
             \<and> (\<forall>n. friction_score t \<noteq> JNum n)"
  with a show "computeTonyScore parse nu nr t = Inr \<lparr> L = 5, U = 3, R = 3, F = 2, score = 9 \<rparr>"
    by (simp add: worked_example_v3)
qed

theorem C5_composite_witness:
  "computeScores (\<lambda>_. None) 0 0 example_task = Inr \<lparr> L = 5, U = 3, R = 3, F = 2, score = 9 \<rparr>
   \<and> computeTonyScore (\<lambda>_. None) 0 0 example_task
       = Inr \<lparr> L = 5, U = 3, R = 3, F = 2, score = 9 \<rparr>
   \<and> (9::int) = 5 + 3 + 3 - 2"
  using C5_composite [where t = example_task and parse = "\<lambda>_. None" and nu = 0 and nr = 0]
  by (simp add: example_task_def)

section \<open>Properties of reads\<close>

lemma tony_frictionScore_row:
  "computeTonyScore_frictionScore (js_of_row r) =
     Inr (case col_friction_score r of
            Some stored \<Rightarrow> stored
          | None \<Rightarrow> friction_table (case col_description r of None \<Rightarrow> [] | Some d \<Rightarrow> d))"
proof (cases "col_friction_score r")
  case (Some f)
  then show ?thesis
    by (simp add: tony_frictionScore_stored js_of_row_def nullable_def)
next
  case None
  then have "computeTonyScore_frictionScore (js_of_row r) = frictionScore (js_of_row r)"
    by (simp add: tony_frictionScore_fresh js_of_row_def nullable_def)
  also have "\<dots> = Inr (friction_table (case col_description r of None \<Rightarrow> [] | Some d \<Rightarrow> d))"
  proof (cases "col_description r")
    case None
    then show ?thesis
      by (simp add: frictionScore_absent js_of_row_def nullable_def friction_table_def)
  next
    case (Some d)
    then show ?thesis
      by (simp add: frictionScore_text js_of_row_def nullable_def)
  qed
  finally show ?thesis using None by simp
qed

lemma tony_leverageScore_row:
  "computeTonyScore_leverageScore (js_of_row r) =
     (case col_leverage_score r of
        Some stored \<Rightarrow> stored
      | None \<Rightarrow> computeTonyScore_leverageScore (current_fields r))"
  by (cases "col_leverage_score r")
     (simp_all add: computeTonyScore_leverageScore_def js_of_row_def nullable_def
        current_fields_def)

lemma current_fields_simps:
  "priority (current_fields r) = JNum (col_priority r)"
  "bucket (current_fields r) = JStr (col_bucket r)"
  "due_date (current_fields r) = nullable (\<lambda>ms. JDate (Some ms)) (col_due_date r)"
  "description (current_fields r) = nullable JStr (col_description r)"
  "leverage_score (current_fields r) = JNull"
  "risk_score (current_fields r) = JNull"
  "friction_score (current_fields r) = JNull"
  "due_date (js_of_row r) = due_date (current_fields r)"
  "bucket (js_of_row r) = bucket (current_fields r)"
  by (simp_all add: current_fields_def js_of_row_def)

lemma tony_urgencyScore_cong:
  assumes "due_date a = due_date b" and "bucket a = bucket b"
  shows "computeTonyScore_urgencyScore parse now a = computeTonyScore_urgencyScore parse now b"
  unfolding computeTonyScore_urgencyScore_def assms by (rule refl)

lemma tony_urgencyScore_row:
  "computeTonyScore_urgencyScore parse now (js_of_row r) =
     computeTonyScore_urgencyScore parse now (current_fields r)"
  by (rule tony_urgencyScore_cong) (simp_all add: current_fields_simps)

lemma tony_riskScore_row:
  "computeTonyScore_riskScore parse now (js_of_row r) =
     (case col_risk_score r of
        Some stored \<Rightarrow> stored
      | None \<Rightarrow> computeTonyScore_riskScore parse now (current_fields r))"
proof (cases "col_risk_score r")
  case (Some stored)
  then show ?thesis
    by (simp add: tony_riskScore_stored js_of_row_def nullable_def)
next
  case None
  then have "computeTonyScore_riskScore parse now (js_of_row r) = riskScore parse now (js_of_row r)"
    by (simp add: tony_riskScore_fresh js_of_row_def nullable_def)
  moreover have "computeTonyScore_riskScore parse now (current_fields r)
      = riskScore parse now (current_fields r)"
    by (simp add: tony_riskScore_fresh current_fields_simps)
  moreover have "riskScore parse now (js_of_row r) = riskScore parse now (current_fields r)"
    using tony_urgencyScore_row [of parse now r]
    by (simp add: riskScore_def tony_urgencyScore_eq)
  ultimately show ?thesis using None by simp
qed

lemma computeTonyScore_row:
  "computeTonyScore parse nu nr (js_of_row r) = Inr (reported_scores parse nu nr r)"
  by (simp add: computeTonyScore_Inr tony_frictionScore_row tony_leverageScore_row
      tony_riskScore_row tony_urgencyScore_row reported_scores_def Let_def)

lemma withScores_rows:
  "withScores parse clock rows =
     Inr (map (\<lambda>i. (rows ! i, reported_scores parse (fst (clock i)) (snd (clock i)) (rows ! i)))
            [0..<length rows])"
proof (induction rows arbitrary: clock)
  case Nil
  then show ?case by simp
next
  case (Cons r rows)
  have "map (\<lambda>i. ((r # rows) ! i,
            reported_scores parse (fst (clock i)) (snd (clock i)) ((r # rows) ! i)))
          [0..<length (r # rows)] =
        (r, reported_scores parse (fst (clock 0)) (snd (clock 0)) r) #
        map (\<lambda>i. (rows ! i,
            reported_scores parse (fst (clock (Suc i))) (snd (clock (Suc i))) (rows ! i)))
          [0..<length rows]"
    by (simp add: upt_conv_Cons map_Suc_upt [symmetric] del: upt_Suc)
  then show ?case
    by (simp add: computeTonyScore_row Cons.IH)
qed

lemma reported_scores_fresh:
  assumes "col_leverage_score r = None" and "col_risk_score r = None"
    and "col_friction_score r = None"
  shows "computeTonyScore parse nu nr (current_fields r) = Inr (reported_scores parse nu nr r)"
proof -
  have "js_of_row r = current_fields r"
    using assms by (simp add: current_fields_def js_of_row_def nullable_def)
  then show ?thesis
    using computeTonyScore_row [of parse nu nr r] by simp
qed

lemma current_fields_row:
  "current_fields r =
     js_of_row (r\<lparr>col_leverage_score := None, col_risk_score := None,
       col_friction_score := None\<rparr>)"
  by (simp add: current_fields_def js_of_row_def nullable_def)

lemma tony_frictionScore_current:
  "computeTonyScore_frictionScore (current_fields r) =
     Inr (friction_table (case col_description r of None \<Rightarrow> [] | Some d \<Rightarrow> d))"
  unfolding current_fields_row by (simp add: tony_frictionScore_row)

lemma select_ordered_length: "length (select_ordered tbl) = length tbl"
  by (simp add: select_ordered_def)

text \<open>
  C6, as the code has it. Wherever the third version reports scores, \<^verbatim>\<open>withScores\<close> pairs
  every row, in order, with scores of which urgency is computed from the current fields
  and the composite is \<open>L + U + R - F\<close> of the reported sub-scores; leverage, risk and
  friction are the numbers stored in the columns \<^verbatim>\<open>leverage_score\<close>, \<^verbatim>\<open>risk_score\<close> and
  \<^verbatim>\<open>friction_score\<close> when these are not NULL, and are computed from the current fields
  otherwise. For a row without stored scores, what is reported is the scoring function
  applied to its current fields. The list of tasks is the ordered query reported this way.
\<close>

theorem C6_reported_scores:
  "\<exists>ms. withScores parse clock rows = Inr ms
     \<and> (\<forall>tbl. rows = select_ordered tbl \<longrightarrow> get_tasks_v3 parse clock tbl = Respond 200 ms)
     \<and> map fst ms = rows
     \<and> (\<forall>i < length rows.
          let r = rows ! i; m = snd (ms ! i); nu = fst (clock i); nr = snd (clock i) in
            U m = computeTonyScore_urgencyScore parse nu (current_fields r)
            \<and> L m = (case col_leverage_score r of
                       Some stored \<Rightarrow> stored
                     | None \<Rightarrow> computeTonyScore_leverageScore (current_fields r))
            \<and> R m = (case col_risk_score r of
                       Some stored \<Rightarrow> stored
                     | None \<Rightarrow> computeTonyScore_riskScore parse nr (current_fields r))
            \<and> Inr (F m) = (case col_friction_score r of
                             Some stored \<Rightarrow> Inr stored
                           | None \<Rightarrow> computeTonyScore_frictionScore (current_fields r))
            \<and> score m = L m + U m + R m - F m
            \<and> (col_leverage_score r = None \<and> col_risk_score r = None
                 \<and> col_friction_score r = None \<longrightarrow>
               computeTonyScore parse nu nr (current_fields r) = Inr m))"
proof -
  define ms where "ms =
    map (\<lambda>i. (rows ! i, reported_scores parse (fst (clock i)) (snd (clock i)) (rows ! i)))
      [0..<length rows]"
  have w: "withScores parse clock rows = Inr ms"
    unfolding ms_def by (rule withScores_rows)
  have g: "\<forall>tbl. rows = select_ordered tbl \<longrightarrow>
      get_tasks_v3 parse clock tbl = Respond 200 ms"
  proof (intro allI impI)
    fix tbl assume "rows = select_ordered tbl"
    with w have "withScores parse clock (select_ordered tbl) = Inr ms" by simp
    then show "get_tasks_v3 parse clock tbl = Respond 200 ms"
      by (simp add: get_tasks_v3_def)
  qed
  have f: "map fst ms = rows"
    unfolding ms_def by (simp add: map_nth comp_def)
  have e: "snd (ms ! i) = reported_scores parse (fst (clock i)) (snd (clock i)) (rows ! i)"
    if "i < length rows" for i
    using that by (simp add: ms_def)
  have p: "let r = rows ! i; m = snd (ms ! i); nu = fst (clock i); nr = snd (clock i) in
              U m = computeTonyScore_urgencyScore parse nu (current_fields r)
              \<and> L m = (case col_leverage_score r of
                         Some stored \<Rightarrow> stored
                       | None \<Rightarrow> computeTonyScore_leverageScore (current_fields r))
              \<and> R m = (case col_risk_score r of
                         Some stored \<Rightarrow> stored
                       | None \<Rightarrow> computeTonyScore_riskScore parse nr (current_fields r))
              \<and> Inr (F m) = (case col_friction_score r of
                               Some stored \<Rightarrow> Inr stored
                             | None \<Rightarrow> computeTonyScore_frictionScore (current_fields r))
              \<and> score m = L m + U m + R m - F m
              \<and> (col_leverage_score r = None \<and> col_risk_score r = None
                   \<and> col_friction_score r = None \<longrightarrow>
                 computeTonyScore parse nu nr (current_fields r) = Inr m)"
    if "i < length rows" for i
    unfolding Let_def e [OF that]
    by (auto simp: reported_scores_def Let_def tony_frictionScore_current reported_scores_fresh
        split: option.split)
  from w g f p show ?thesis by blast
qed

lemma friction_table_example: "friction_table ''Call about the TAX return'' = 3"
  by (simp add: friction_table_def contains_ci_iff toLowerCase_def lower_char_def)

lemma example_rows_fields: "current_fields fresh_row = current_fields stale_row"
  by (simp add: current_fields_def js_of_row_def nullable_def fresh_row_def stale_row_def)

lemma fresh_row_scores:
  "reported_scores (\<lambda>_. None) 0 0 fresh_row = \<lparr> L = 5, U = 4, R = 4, F = 3, score = 10 \<rparr>"
  by (simp add: reported_scores_def computeTonyScore_leverageScore_def
      computeTonyScore_urgencyScore_def computeTonyScore_riskScore_def js_or_def
      current_fields_def js_of_row_def nullable_def friction_table_example
      fresh_row_def stale_row_def)

lemma stale_row_scores:
  "reported_scores (\<lambda>_. None) 0 0 stale_row = \<lparr> L = 5, U = 4, R = 2, F = 3, score = 8 \<rparr>"
  by (simp add: reported_scores_def computeTonyScore_urgencyScore_def js_or_def
      current_fields_def js_of_row_def nullable_def stale_row_def)

lemma example_rows_scores:
  "computeTonyScore (\<lambda>_. None) 0 0 (current_fields stale_row)
     = Inr \<lparr> L = 5, U = 4, R = 4, F = 3, score = 10 \<rparr>"
proof -
  have "computeTonyScore (\<lambda>_. None) 0 0 (current_fields fresh_row)
      = Inr (reported_scores (\<lambda>_. None) 0 0 fresh_row)"
    by (rule reported_scores_fresh) (simp_all add: fresh_row_def)
  then show ?thesis
    by (simp add: example_rows_fields fresh_row_scores)
qed

theorem C6_reported_scores_witness:
  "get_tasks_v3 (\<lambda>_. None) (\<lambda>_. (0, 0)) [fresh_row]
     = Respond 200 [(fresh_row, \<lparr> L = 5, U = 4, R = 4, F = 3, score = 10 \<rparr>)]"
proof -
  have rows: "[fresh_row] = select_ordered [fresh_row]"
    by (simp add: select_ordered_def)
  have n: "col_leverage_score fresh_row = None" "col_risk_score fresh_row = None"
    "col_friction_score fresh_row = None"
    by (simp_all add: fresh_row_def)
  obtain ms where g: "get_tasks_v3 (\<lambda>_. None) (\<lambda>_. (0, 0)) [fresh_row] = Respond 200 ms"
    and f: "map fst ms = [fresh_row]"
    and p: "computeTonyScore (\<lambda>_. None) 0 0 (current_fields fresh_row) = Inr (snd (ms ! 0))"
    using C6_reported_scores [where parse = "\<lambda>_. None" and clock = "\<lambda>_. (0, 0)"
        and rows = "[fresh_row]"] rows
    by (auto simp: Let_def n)
  from f obtain m where "ms = [(fresh_row, m)]"
    by (cases ms) auto
  with p example_rows_scores
  have "ms = [(fresh_row, \<lparr> L = 5, U = 4, R = 4, F = 3, score = 10 \<rparr>)]"
    by (simp add: example_rows_fields)
  with g show ?thesis by simp
qed

text \<open>
  C6 as written fails. The row was stored with risk 2 while its deadline was far away. Read
  ten hours before the deadline, it is reported with urgency 4 and the stored risk 2, where
  its current fields score risk 4; the reported composite is 8, not 10.
\<close>

theorem C6_reported_scores_counterexample:
  "get_tasks_v3 (\<lambda>_. None) (\<lambda>_. (0, 0)) [stale_row]
     = Respond 200 [(stale_row, \<lparr> L = 5, U = 4, R = 2, F = 3, score = 8 \<rparr>)]
   \<and> computeTonyScore (\<lambda>_. None) 0 0 (current_fields stale_row)
     = Inr \<lparr> L = 5, U = 4, R = 4, F = 3, score = 10 \<rparr>"
proof -
  have "select_ordered [stale_row] = [stale_row]"
    by (simp add: select_ordered_def)
  then have "get_tasks_v3 (\<lambda>_. None) (\<lambda>_. (0, 0)) [stale_row]
     = Respond 200 [(stale_row, \<lparr> L = 5, U = 4, R = 2, F = 3, score = 8 \<rparr>)]"
    by (simp add: get_tasks_v3_def withScores_rows stale_row_scores)
  then show ?thesis
    using example_rows_scores by simp
qed

section \<open>Properties of listing\<close>

lemma tasks_order_le:
  "tasks_order a \<le> tasks_order b \<longleftrightarrow>
     (\<not> is_done a \<and> is_done b) \<or>
     (is_done a = is_done b \<and>
       (col_bucket a < col_bucket b \<or>
        (col_bucket a = col_bucket b \<and>
          (col_priority a < col_priority b \<or>
           (col_priority a = col_priority b \<and> due_key a \<le> due_key b)))))"
  by (auto simp: tasks_order_def is_done_def due_key_def)

lemma select_ordered_sorted:
  assumes "i < j" and "j < length tbl"
  shows "tasks_order (select_ordered tbl ! i) \<le> tasks_order (select_ordered tbl ! j)"
proof -
  have "sorted (map tasks_order (select_ordered tbl))"
    by (simp add: select_ordered_def)
  then have "map tasks_order (select_ordered tbl) ! i \<le> map tasks_order (select_ordered tbl) ! j"
    using assms by (simp add: sorted_iff_nth_mono_less select_ordered_length)
  then show ?thesis
    using assms by (simp add: select_ordered_length)
qed

lemma select_ordered_pair:
  assumes "i < j" and "j < length tbl"
  defines "a \<equiv> select_ordered tbl ! i" and "b \<equiv> select_ordered tbl ! j"
  shows "(is_done a \<longrightarrow> is_done b)
       \<and> (is_done a = is_done b \<and> col_bucket a = col_bucket b \<longrightarrow>
            col_priority a \<le> col_priority b
            \<and> (col_priority a = col_priority b \<longrightarrow> due_key a \<le> due_key b))"
  using select_ordered_sorted [OF assms(1,2)]
  unfolding a_def b_def tasks_order_le by auto

lemma select_ordered_grouped:
  assumes "i < j" and "j < k" and "k < length tbl"
  defines "a \<equiv> select_ordered tbl ! i" and "b \<equiv> select_ordered tbl ! j"
    and "c \<equiv> select_ordered tbl ! k"
  assumes "is_done a = is_done c" and "col_bucket a = col_bucket c"
  shows "is_done b = is_done a \<and> col_bucket b = col_bucket a"
proof -
  have ab: "tasks_order a \<le> tasks_order b"
    unfolding a_def b_def using assms(1,2,3) by (intro select_ordered_sorted) auto
  have bc: "tasks_order b \<le> tasks_order c"
    unfolding b_def c_def using assms(2,3) by (intro select_ordered_sorted) auto
  from ab bc assms(7,8) show ?thesis
    unfolding tasks_order_le by (metis order_less_asym)
qed

text \<open>
  C7, as the code has it. The list of the second version returns all tasks by ascending
  creation time. The list of the third version returns all tasks, incomplete ones before
  completed ones; within the same completion state the tasks of one bucket are listed
  together, and within a bucket by ascending priority, then by ascending due date, where a
  missing due date counts as the last day of the year 9999.
\<close>

theorem C7_list_order:
  "(\<exists>rows. get_tasks_v2 tbl = Respond 200 rows \<and> mset rows = mset tbl
      \<and> sorted (map col_created_at rows))
   \<and> (\<exists>ms. get_tasks_v3 parse clock tbl = Respond 200 ms \<and> mset (map fst ms) = mset tbl
      \<and> (\<forall>i j. i < j \<and> j < length ms \<longrightarrow>
            (let a = fst (ms ! i); b = fst (ms ! j) in
               (is_done a \<longrightarrow> is_done b)
               \<and> (is_done a = is_done b \<and> col_bucket a = col_bucket b \<longrightarrow>
                    col_priority a \<le> col_priority b
                    \<and> (col_priority a = col_priority b \<longrightarrow> due_key a \<le> due_key b))))
      \<and> (\<forall>i j k. i < j \<and> j < k \<and> k < length ms \<longrightarrow>
            (let a = fst (ms ! i); b = fst (ms ! j); c = fst (ms ! k) in
               is_done a = is_done c \<and> col_bucket a = col_bucket c \<longrightarrow>
               is_done b = is_done a \<and> col_bucket b = col_bucket a)))"
proof
  show "\<exists>rows. get_tasks_v2 tbl = Respond 200 rows \<and> mset rows = mset tbl
      \<and> sorted (map col_created_at rows)"
    by (simp add: get_tasks_v2_def select_by_created_at_def)
next
  define ms where "ms =
    map (\<lambda>i. (select_ordered tbl ! i,
        reported_scores parse (fst (clock i)) (snd (clock i)) (select_ordered tbl ! i)))
      [0..<length (select_ordered tbl)]"
  have g: "get_tasks_v3 parse clock tbl = Respond 200 ms"
    by (simp add: get_tasks_v3_def withScores_rows ms_def)
  have f: "map fst ms = select_ordered tbl"
    unfolding ms_def by (simp add: map_nth comp_def)
  then have n: "fst (ms ! i) = select_ordered tbl ! i" if "i < length tbl" for i
    using that by (metis length_map nth_map select_ordered_length)
  have l: "length ms = length tbl"
    by (simp add: ms_def select_ordered_length)
  have m: "mset (map fst ms) = mset tbl"
    by (simp add: f select_ordered_def)
  have p: "let a = fst (ms ! i); b = fst (ms ! j) in
               (is_done a \<longrightarrow> is_done b)
               \<and> (is_done a = is_done b \<and> col_bucket a = col_bucket b \<longrightarrow>
                    col_priority a \<le> col_priority b
                    \<and> (col_priority a = col_priority b \<longrightarrow> due_key a \<le> due_key b))"
    if "i < j \<and> j < length ms" for i j
    using that select_ordered_pair [of i j tbl] by (simp add: l n Let_def)
  have q: "let a = fst (ms ! i); b = fst (ms ! j); c = fst (ms ! k) in
               is_done a = is_done c \<and> col_bucket a = col_bucket c \<longrightarrow>
               is_done b = is_done a \<and> col_bucket b = col_bucket a"
    if "i < j \<and> j < k \<and> k < length ms" for i j k
    using that select_ordered_grouped [of i j k tbl] by (simp add: l n Let_def)
  from g m p q show "\<exists>ms. get_tasks_v3 parse clock tbl = Respond 200 ms
      \<and> mset (map fst ms) = mset tbl
      \<and> (\<forall>i j. i < j \<and> j < length ms \<longrightarrow>
            (let a = fst (ms ! i); b = fst (ms ! j) in
               (is_done a \<longrightarrow> is_done b)
               \<and> (is_done a = is_done b \<and> col_bucket a = col_bucket b \<longrightarrow>
                    col_priority a \<le> col_priority b
                    \<and> (col_priority a = col_priority b \<longrightarrow> due_key a \<le> due_key b))))
      \<and> (\<forall>i j k. i < j \<and> j < k \<and> k < length ms \<longrightarrow>
            (let a = fst (ms ! i); b = fst (ms ! j); c = fst (ms ! k) in
               is_done a = is_done c \<and> col_bucket a = col_bucket c \<longrightarrow>
               is_done b = is_done a \<and> col_bucket b = col_bucket a))"
    by blast
qed

lemma example_reported_scores:
  "reported_scores (\<lambda>_. None) 0 0 today_row = \<lparr> L = 5, U = 3, R = 3, F = 2, score = 9 \<rparr>"
  "reported_scores (\<lambda>_. None) 0 0 backlog_row = \<lparr> L = 5, U = 1, R = 2, F = 2, score = 6 \<rparr>"
  "reported_scores (\<lambda>_. None) 0 0 done_row = \<lparr> L = 5, U = 3, R = 3, F = 2, score = 9 \<rparr>"
  "reported_scores (\<lambda>_. None) 0 0 due_row = \<lparr> L = 4, U = 4, R = 4, F = 2, score = 10 \<rparr>"
  by (simp_all add: reported_scores_def computeTonyScore_leverageScore_def
      computeTonyScore_urgencyScore_def computeTonyScore_riskScore_def js_or_def
      current_fields_def js_of_row_def nullable_def friction_table_def
      today_row_def backlog_row_def done_row_def due_row_def)

lemma example_select_ordered:
  "select_ordered [today_row, backlog_row] = [backlog_row, today_row]"
  "select_ordered [due_row, done_row, today_row] = [today_row, due_row, done_row]"
  by (simp_all add: select_ordered_def tasks_order_def far_future_def
      today_row_def backlog_row_def done_row_def due_row_def)

lemma example_get_tasks_v3:
  "get_tasks_v3 (\<lambda>_. None) (\<lambda>_. (0, 0)) [today_row, backlog_row] =
     Respond 200 [(backlog_row, \<lparr> L = 5, U = 1, R = 2, F = 2, score = 6 \<rparr>),
                  (today_row, \<lparr> L = 5, U = 3, R = 3, F = 2, score = 9 \<rparr>)]"
  "get_tasks_v3 (\<lambda>_. None) (\<lambda>_. (0, 0)) [due_row, done_row, today_row] =
     Respond 200 [(today_row, \<lparr> L = 5, U = 3, R = 3, F = 2, score = 9 \<rparr>),
                  (due_row, \<lparr> L = 4, U = 4, R = 4, F = 2, score = 10 \<rparr>),
                  (done_row, \<lparr> L = 5, U = 3, R = 3, F = 2, score = 9 \<rparr>)]"
  by (simp_all add: get_tasks_v3_def withScores_rows example_select_ordered
      example_reported_scores upt_conv_Cons del: upt_Suc)

lemma example_get_tasks_v2:
  "get_tasks_v2 [today_row, done_row] = Respond 200 [done_row, today_row]"
  by (simp add: get_tasks_v2_def select_by_created_at_def today_row_def done_row_def)

theorem C7_list_order_witness:
  "get_tasks_v2 [today_row, done_row] = Respond 200 [done_row, today_row]
   \<and> col_created_at done_row \<le> col_created_at today_row
   \<and> get_tasks_v3 (\<lambda>_. None) (\<lambda>_. (0, 0)) [due_row, done_row, today_row] =
       Respond 200 [(today_row, \<lparr> L = 5, U = 3, R = 3, F = 2, score = 9 \<rparr>),
                    (due_row, \<lparr> L = 4, U = 4, R = 4, F = 2, score = 10 \<rparr>),
                    (done_row, \<lparr> L = 5, U = 3, R = 3, F = 2, score = 9 \<rparr>)]
   \<and> col_priority today_row \<le> col_priority due_row
   \<and> \<not> is_done due_row \<and> is_done done_row"
proof -
  let ?tbl = "[due_row, done_row, today_row]"
  obtain rows where r: "get_tasks_v2 [today_row, done_row] = Respond 200 rows"
    and s: "sorted (map col_created_at rows)"
    using C7_list_order [where tbl = "[today_row, done_row]"] by blast
  obtain ms where g: "get_tasks_v3 (\<lambda>_. None) (\<lambda>_. (0, 0)) ?tbl = Respond 200 ms"
    and p: "\<forall>i j. i < j \<and> j < length ms \<longrightarrow>
            (let a = fst (ms ! i); b = fst (ms ! j) in
               (is_done a \<longrightarrow> is_done b)
               \<and> (is_done a = is_done b \<and> col_bucket a = col_bucket b \<longrightarrow>
                    col_priority a \<le> col_priority b
                    \<and> (col_priority a = col_priority b \<longrightarrow> due_key a \<le> due_key b)))"
    using C7_list_order [where tbl = ?tbl and parse = "\<lambda>_. None" and clock = "\<lambda>_. (0, 0)"]
    by blast
  from r have "rows = [done_row, today_row]"
    by (simp add: example_get_tasks_v2)
  with s have "col_created_at done_row \<le> col_created_at today_row"
    by simp
  moreover from g have ms: "ms = [(today_row, \<lparr> L = 5, U = 3, R = 3, F = 2, score = 9 \<rparr>),
                    (due_row, \<lparr> L = 4, U = 4, R = 4, F = 2, score = 10 \<rparr>),
                    (done_row, \<lparr> L = 5, U = 3, R = 3, F = 2, score = 9 \<rparr>)]"
    by (simp add: example_get_tasks_v3)
  moreover have d: "\<not> is_done today_row" "\<not> is_done due_row" "is_done done_row"
    "col_bucket today_row = col_bucket due_row"
    by (simp_all add: is_done_def today_row_def due_row_def done_row_def)
  moreover from p [rule_format, of 0 1] ms d
  have "col_priority today_row \<le> col_priority due_row"
    by (simp add: Let_def)
  ultimately show ?thesis
    using example_get_tasks_v2 example_get_tasks_v3(2) by simp
qed

text \<open>
  C7 as written fails on both lists. The second version lists a completed task
  before an incomplete one, because it was created first. The third version compares
  buckets as text and lists "backlog" before "today".
\<close>

theorem C7_list_order_counterexample:
  "get_tasks_v2 [today_row, done_row] = Respond 200 [done_row, today_row]
   \<and> col_status done_row = ''done'' \<and> col_status today_row = ''open''
   \<and> get_tasks_v3 (\<lambda>_. None) (\<lambda>_. (0, 0)) [today_row, backlog_row] =
       Respond 200 [(backlog_row, \<lparr> L = 5, U = 1, R = 2, F = 2, score = 6 \<rparr>),
                    (today_row, \<lparr> L = 5, U = 3, R = 3, F = 2, score = 9 \<rparr>)]
   \<and> col_status backlog_row = col_status today_row
   \<and> col_bucket backlog_row = ''backlog'' \<and> col_bucket today_row = ''today''"
  using example_get_tasks_v2 example_get_tasks_v3(1)
  by (simp add: today_row_def done_row_def backlog_row_def)

section \<open>Properties of task creation\<close>

lemma post_tasks_v2_rejects:
  "\<not> truthy (b_title b) \<or> \<not> is_string (b_title b) \<Longrightarrow>
   post_tasks_v2 ins parse nu nr b db = (Fail 400 ''title is required'', db)"
  by (auto simp: post_tasks_v2_def Let_def)

lemma post_tasks_v3_rejects:
  "\<not> truthy (b_title b) \<or> \<not> is_string (b_title b) \<Longrightarrow>
   post_tasks_v3 ins parse clock b db = (Fail 400 ''title is required'', db)"
  by (auto simp: post_tasks_v3_def Let_def)

lemma default_scores:
  "computeScores parse nu nr
     \<lparr> title = JStr s, description = JNull, bucket = JStr ''later'', priority = JNum 3,
       due_date = JNull, leverage_score = JUndefined, risk_score = JUndefined,
       friction_score = JUndefined \<rparr>
   = Inr \<lparr> L = 3, U = 1, R = 2, F = 2, score = 4 \<rparr>"
  by (simp add: computeScores_Inr frictionScore_absent leverageScore_number
      urgencyScore_absent riskScore_def)

lemma post_tasks_v2_defaults:
  "s \<noteq> [] \<Longrightarrow>
   post_tasks_v2 ins parse nu nr (title_only_body s) db =
     (case ins \<lparr> i_title = JStr s, i_description = JNull, i_area = JNull,
                 i_status = JStr ''open'', i_bucket = JStr ''later'', i_priority = JNum 3,
                 i_due_date = JNull, i_scores = Some (3, 1, 2, 2) \<rparr> db of
        Inl e \<Rightarrow> (Fail 500 ''Internal server error'', db)
      | Inr (r, db') \<Rightarrow> (Respond 201 r, db'))"
  by (simp add: post_tasks_v2_def title_only_body_def empty_body_def dflt_def default_scores)

lemma withScores_single:
  "withScores parse clock [r] =
     Inr [(r, reported_scores parse (fst (clock 0)) (snd (clock 0)) r)]"
  by (simp add: computeTonyScore_row)

lemma post_tasks_v3_defaults:
  "s \<noteq> [] \<Longrightarrow>
   post_tasks_v3 ins parse clock (title_only_body s) db =
     (case ins \<lparr> i_title = JStr s, i_description = JNull, i_area = JNull,
                 i_status = JStr ''open'', i_bucket = JStr ''later'', i_priority = JNum 3,
                 i_due_date = JNull, i_scores = None \<rparr> db of
        Inl e \<Rightarrow> (Fail 500 ''Failed to create task'', db)
      | Inr (r, db') \<Rightarrow>
          (Respond 201 (r, reported_scores parse (fst (clock 0)) (snd (clock 0)) r), db'))"
  by (simp add: post_tasks_v3_def title_only_body_def empty_body_def dflt_def
      withScores_single del: withScores.simps split: sum.split)

text \<open>
  C8. In both versions, creating a task whose title is missing, empty or not a string is
  answered with status 400 and "title is required", and the store is left as it was: the
  answer is the same whatever the store would do with an insert. Creating a task from a
  body that holds a non-empty title and nothing else hands the store a row with status
  "open", bucket "later" and priority 3 (description, area and due date null; in the
  second version also the four sub-scores of these defaults), and answers 201 with the row
  the store returns, in the third version with its scores; if the store refuses the row,
  the answer is 500.
\<close>

theorem C8_create_task:
  fixes ins :: "'db insert_fn" and s :: string
  defines "defaults \<equiv>
     \<lparr> i_title = JStr s, i_description = JNull, i_area = JNull, i_status = JStr ''open'',
       i_bucket = JStr ''later'', i_priority = JNum 3, i_due_date = JNull, i_scores = None \<rparr>"
  shows "(\<not> truthy (b_title b) \<or> \<not> is_string (b_title b) \<longrightarrow>
      post_tasks_v2 ins parse nu nr b db = (Fail 400 ''title is required'', db)
      \<and> post_tasks_v3 ins parse clock b db = (Fail 400 ''title is required'', db))
   \<and> (s \<noteq> [] \<longrightarrow>
      (\<forall>r db'. ins (defaults\<lparr>i_scores := Some (3, 1, 2, 2)\<rparr>) db = Inr (r, db') \<longrightarrow>
         post_tasks_v2 ins parse nu nr (title_only_body s) db = (Respond 201 r, db'))
      \<and> (\<forall>e. ins (defaults\<lparr>i_scores := Some (3, 1, 2, 2)\<rparr>) db = Inl e \<longrightarrow>
         post_tasks_v2 ins parse nu nr (title_only_body s) db
           = (Fail 500 ''Internal server error'', db))
      \<and> (\<forall>r db'. ins defaults db = Inr (r, db') \<longrightarrow>
         (\<exists>m. computeTonyScore parse (fst (clock 0)) (snd (clock 0)) (js_of_row r) = Inr m
            \<and> post_tasks_v3 ins parse clock (title_only_body s) db = (Respond 201 (r, m), db')))
      \<and> (\<forall>e. ins defaults db = Inl e \<longrightarrow>
         post_tasks_v3 ins parse clock (title_only_body s) db
           = (Fail 500 ''Failed to create task'', db)))"
proof (intro conjI impI allI)
  assume "\<not> truthy (b_title b) \<or> \<not> is_string (b_title b)"
  then show "post_tasks_v2 ins parse nu nr b db = (Fail 400 ''title is required'', db)"
    and "post_tasks_v3 ins parse clock b db = (Fail 400 ''title is required'', db)"
    by (simp_all add: post_tasks_v2_rejects post_tasks_v3_rejects)
next
  assume s: "s \<noteq> []"
  show "post_tasks_v2 ins parse nu nr (title_only_body s) db = (Respond 201 r, db')"
    if "ins (defaults\<lparr>i_scores := Some (3, 1, 2, 2)\<rparr>) db = Inr (r, db')" for r db'
    using that by (simp add: post_tasks_v2_defaults [OF s] defaults_def)
  show "post_tasks_v2 ins parse nu nr (title_only_body s) db
      = (Fail 500 ''Internal server error'', db)"
    if "ins (defaults\<lparr>i_scores := Some (3, 1, 2, 2)\<rparr>) db = Inl e" for e
    using that by (simp add: post_tasks_v2_defaults [OF s] defaults_def)
  show "\<exists>m. computeTonyScore parse (fst (clock 0)) (snd (clock 0)) (js_of_row r) = Inr m
      \<and> post_tasks_v3 ins parse clock (title_only_body s) db = (Respond 201 (r, m), db')"
    if "ins defaults db = Inr (r, db')" for r db'
    using that
    by (simp add: post_tasks_v3_defaults [OF s] defaults_def computeTonyScore_row)
  show "post_tasks_v3 ins parse clock (title_only_body s) db
      = (Fail 500 ''Failed to create task'', db)"
    if "ins defaults db = Inl e" for e
    using that by (simp add: post_tasks_v3_defaults [OF s] defaults_def)
qed

lemma memory_insert_defaults:
  "memory_insert \<lparr> i_title = JStr ''Buy milk'', i_description = JNull, i_area = JNull,
       i_status = JStr ''open'', i_bucket = JStr ''later'', i_priority = JNum 3,
       i_due_date = JNull, i_scores = None \<rparr> [] = Inr (milk_row, [milk_row])"
  "memory_insert \<lparr> i_title = JStr ''Buy milk'', i_description = JNull, i_area = JNull,
       i_status = JStr ''open'', i_bucket = JStr ''later'', i_priority = JNum 3,
       i_due_date = JNull, i_scores = Some (3, 1, 2, 2) \<rparr> [] = Inr (milk_row_v2, [milk_row_v2])"
  by (simp_all add: memory_insert_def Let_def text_or_empty_def milk_row_def milk_row_v2_def)

lemma milk_row_scores:
  "reported_scores (\<lambda>_. None) 0 0 milk_row = \<lparr> L = 3, U = 1, R = 2, F = 2, score = 4 \<rparr>"
  by (simp add: reported_scores_def computeTonyScore_leverageScore_def
      computeTonyScore_urgencyScore_def computeTonyScore_riskScore_def js_or_def
      current_fields_def js_of_row_def nullable_def friction_table_def milk_row_def)

theorem C8_create_task_witness:
  "post_tasks_v2 memory_insert (\<lambda>_. None) 0 0 empty_body [milk_row]
     = (Fail 400 ''title is required'', [milk_row])
   \<and> post_tasks_v3 memory_insert (\<lambda>_. None) (\<lambda>_. (0, 0)) empty_body [milk_row]
     = (Fail 400 ''title is required'', [milk_row])
   \<and> post_tasks_v2 memory_insert (\<lambda>_. None) 0 0 (title_only_body []) [milk_row]
     = (Fail 400 ''title is required'', [milk_row])
   \<and> post_tasks_v3 memory_insert (\<lambda>_. None) (\<lambda>_. (0, 0)) (empty_body\<lparr>b_title := JNum 7\<rparr>) []
     = (Fail 400 ''title is required'', [])
   \<and> post_tasks_v2 memory_insert (\<lambda>_. None) 0 0 (title_only_body ''Buy milk'') []
     = (Respond 201 milk_row_v2, [milk_row_v2])
   \<and> post_tasks_v3 memory_insert (\<lambda>_. None) (\<lambda>_. (0, 0)) (title_only_body ''Buy milk'') []
     = (Respond 201 (milk_row, \<lparr> L = 3, U = 1, R = 2, F = 2, score = 4 \<rparr>), [milk_row])
   \<and> col_status milk_row = ''open'' \<and> col_bucket milk_row = ''later''
   \<and> col_priority milk_row = 3"
  using C8_create_task [where b = empty_body and ins = memory_insert and parse = "\<lambda>_. None"
      and nu = 0 and nr = 0 and clock = "\<lambda>_. (0, 0)" and db = "[milk_row]"
      and s = "''Buy milk''"]
    C8_create_task [where b = "title_only_body []" and ins = memory_insert
      and parse = "\<lambda>_. None" and nu = 0 and nr = 0 and clock = "\<lambda>_. (0, 0)"
      and db = "[milk_row]" and s = "''Buy milk''"]
    C8_create_task [where b = "empty_body\<lparr>b_title := JNum 7\<rparr>" and ins = memory_insert
      and parse = "\<lambda>_. None" and nu = 0 and nr = 0 and clock = "\<lambda>_. (0, 0)"
      and db = "[]" and s = "''Buy milk''"]
  by (simp add: memory_insert_defaults milk_row_scores computeTonyScore_row)
     (simp add: empty_body_def title_only_body_def milk_row_def)

section \<open>Properties of the brain dump\<close>

lemma drop_leading_Nil: "drop_leading ws [] = []"
proof -
  have "find (\<lambda>w. w \<noteq> [] \<and> startsWith [] w) ws = None"
    by (induction ws) (auto simp: neq_Nil_conv)
  then show ?thesis
    by (subst drop_leading.simps) simp
qed

lemma trim_Nil: "trim [] = []"
  by (simp add: trim_def trimStart_def trimEnd_def drop_leading_Nil)

lemma titled_v2_falsy: "\<not> truthy (d_title t) \<Longrightarrow> \<not> titled_v2 rt t"
  by (simp add: titled_v2_def js_or_def trim_Nil)

lemma titled_v2_string: "d_title t = JStr s \<Longrightarrow> titled_v2 rt t \<longleftrightarrow> trim s \<noteq> []"
  by (cases "s = []") (simp_all add: titled_v2_def js_or_def trim_Nil)

lemma titled_v2_title:
  assumes "titled_v2 rt t"
  shows "js_or (d_title t) (JStr '''') = d_title t"
proof -
  have "truthy (d_title t)"
    using assms titled_v2_falsy by blast
  then show ?thesis
    by (simp add: js_or_def)
qed

lemma brain_dump_loop_v2_skips:
  "brain_dump_loop_v2 ins rt clock dbk da ds created db =
   brain_dump_loop_v2 ins rt clock dbk da (filter (titled_v2 rt) ds) created db"
proof (induction ds arbitrary: created db)
  case Nil
  then show ?case by simp
next
  case (Cons t ts)
  show ?case
  proof (cases "titled_v2 rt t")
    case False
    then show ?thesis
      using Cons.IH by (simp add: titled_v2_def)
  next
    case True
    then show ?thesis
      using Cons.IH by (simp add: titled_v2_def Let_def split: sum.split prod.split)
  qed
qed

lemma brain_dump_loop_v3_skips:
  "brain_dump_loop_v3 ins parse clock dbk da ds created db =
   brain_dump_loop_v3 ins parse clock dbk da (filter titled_v3 ds) created db"
proof (induction ds arbitrary: created db)
  case Nil
  then show ?case by simp
next
  case (Cons t ts)
  show ?case
  proof (cases "titled_v3 t")
    case False
    then show ?thesis
      using Cons.IH by (simp add: titled_v3_def)
  next
    case True
    then show ?thesis
      using Cons.IH
      by (simp add: titled_v3_def Let_def del: withScores.simps split: sum.split prod.split)
  qed
qed

text \<open>The scores of the object of a draft: scoring it raises no error.\<close>

lemma frictionScore_draft:
  "frictionScore (draft_task_v2 rt dbk t) =
     Inr (friction_table
            (if truthy (d_description t) then ToString rt (d_description t) else []))"
proof (cases "truthy (d_description t)")
  case True
  then have "description (draft_task_v2 rt dbk t) = JStr (ToString rt (d_description t))"
    by (simp add: draft_task_v2_def)
  then show ?thesis
    using True by (simp add: frictionScore_text)
next
  case False
  then have "\<not> truthy (description (draft_task_v2 rt dbk t))"
    by (simp add: draft_task_v2_def)
  then show ?thesis
    using False by (simp add: frictionScore_absent friction_table_def)
qed

lemma computeScores_draft:
  "computeScores (Date_parse rt) nu nr (draft_task_v2 rt dbk t) =
     Inr \<lparr> L = leverageScore (draft_task_v2 rt dbk t),
           U = urgencyScore (Date_parse rt) nu (draft_task_v2 rt dbk t),
           R = riskScore (Date_parse rt) nr (draft_task_v2 rt dbk t),
           F = friction_table
                 (if truthy (d_description t) then ToString rt (d_description t) else []),
           score = leverageScore (draft_task_v2 rt dbk t)
                   + urgencyScore (Date_parse rt) nu (draft_task_v2 rt dbk t)
                   + riskScore (Date_parse rt) nr (draft_task_v2 rt dbk t)
                   - friction_table
                       (if truthy (d_description t) then ToString rt (d_description t)
                        else []) \<rparr>"
  by (simp add: computeScores_Inr frictionScore_draft)

text \<open>One turn of each loop on a titled draft: the insert of the draft, and nothing else.\<close>

lemma brain_dump_loop_v2_step:
  assumes "titled_v2 rt t"
  shows "brain_dump_loop_v2 ins rt clock dbk da (t # ts) created db =
     (case ins (draft_insert_v2 rt (fst (clock (length created)))
                  (snd (clock (length created))) dbk da t) db of
        Inl e \<Rightarrow> (Inl (Db e), db)
      | Inr (r, db') \<Rightarrow> brain_dump_loop_v2 ins rt clock dbk da ts (created @ [r]) db')"
proof -
  have p: "draft_insert_v2 rt nu nr dbk da t =
      \<lparr> i_title = JStr (trim (ToString rt (js_or (d_title t) (JStr '''')))),
        i_description =
          (if truthy (d_description t) then JStr (ToString rt (d_description t)) else JNull),
        i_area = (if truthy (d_area t) then JStr (ToString rt (d_area t)) else da),
        i_status = JStr ''open'', i_bucket = js_or (d_bucket t) dbk,
        i_priority = JNum (case ToNumber rt (d_priority t) of None \<Rightarrow> 3 | Some n \<Rightarrow> n),
        i_due_date = js_or (d_due_date t) JNull,
        i_scores =
          Some (leverageScore (draft_task_v2 rt dbk t),
                urgencyScore (Date_parse rt) nu (draft_task_v2 rt dbk t),
                riskScore (Date_parse rt) nr (draft_task_v2 rt dbk t),
                friction_table
                  (if truthy (d_description t) then ToString rt (d_description t)
                   else [])) \<rparr>"
    for nu nr
    unfolding draft_insert_v2_def by (simp add: draft_task_v2_def)
  have s: "computeScores (Date_parse rt) nu nr
      \<lparr> title = JStr (trim (ToString rt (js_or (d_title t) (JStr '''')))),
        description =
          (if truthy (d_description t) then JStr (ToString rt (d_description t)) else JNull),
        bucket = js_or (d_bucket t) dbk,
        priority = JNum (case ToNumber rt (d_priority t) of None \<Rightarrow> 3 | Some n \<Rightarrow> n),
        due_date = js_or (d_due_date t) JNull,
        leverage_score = JUndefined, risk_score = JUndefined, friction_score = JUndefined \<rparr>
      = Inr \<lparr> L = leverageScore (draft_task_v2 rt dbk t),
           U = urgencyScore (Date_parse rt) nu (draft_task_v2 rt dbk t),
           R = riskScore (Date_parse rt) nr (draft_task_v2 rt dbk t),
           F = friction_table
                 (if truthy (d_description t) then ToString rt (d_description t) else []),
           score = leverageScore (draft_task_v2 rt dbk t)
                   + urgencyScore (Date_parse rt) nu (draft_task_v2 rt dbk t)
                   + riskScore (Date_parse rt) nr (draft_task_v2 rt dbk t)
                   - friction_table
                       (if truthy (d_description t) then ToString rt (d_description t)
                        else []) \<rparr>"
    for nu nr
    using computeScores_draft [of rt nu nr dbk t]
    by (simp only: draft_task_v2_def [symmetric])
  show ?thesis
    using assms unfolding p
    by (simp only: brain_dump_loop_v2.simps Let_def titled_v2_def s if_False
        sum.case scores.simps)
qed

lemma brain_dump_loop_v3_step:
  assumes "titled_v3 t"
  shows "brain_dump_loop_v3 ins parse clock dbk da (t # ts) created db =
     (case ins (draft_insert_v3 dbk da t) db of
        Inl e \<Rightarrow> (Inl (Db e), db)
      | Inr (r, db') \<Rightarrow>
          brain_dump_loop_v3 ins parse clock dbk da ts
            (created @ [(r, reported_scores parse (fst (clock (length created)))
                              (snd (clock (length created))) r)]) db')"
  using assms
  by (simp add: titled_v3_def Let_def draft_insert_v3_def withScores_single
      del: withScores.simps split: sum.split prod.split)

text \<open>
  Each loop hands the inserts of the titled drafts to the store, one after the other, and
  collects the rows the store returns; it stops at the first insert the store refuses.
\<close>

lemma brain_dump_loop_v2_inserts:
  "brain_dump_loop_v2 ins rt clock dbk da ds created db =
     (case insert_all ins (batch_inserts_v2 rt clock dbk da (length created) ds) db of
        Inl (e, db') \<Rightarrow> (Inl (Db e), db')
      | Inr (rows, db') \<Rightarrow> (Inr (created @ rows), db'))"
proof (induction ds arbitrary: created db)
  case Nil
  then show ?case
    by (simp add: batch_inserts_v2_def enumerate_eq_zip)
next
  case (Cons t ts)
  show ?case
  proof (cases "titled_v2 rt t")
    case False
    then have "brain_dump_loop_v2 ins rt clock dbk da (t # ts) created db =
        brain_dump_loop_v2 ins rt clock dbk da ts created db"
      by (simp add: titled_v2_def)
    moreover have "batch_inserts_v2 rt clock dbk da (length created) (t # ts) =
        batch_inserts_v2 rt clock dbk da (length created) ts"
      using False by (simp add: batch_inserts_v2_def)
    ultimately show ?thesis
      using Cons.IH [of created db] by simp
  next
    case True
    let ?p = "draft_insert_v2 rt (fst (clock (length created)))
                (snd (clock (length created))) dbk da t"
    have b: "batch_inserts_v2 rt clock dbk da (length created) (t # ts) =
        ?p # batch_inserts_v2 rt clock dbk da (Suc (length created)) ts"
      using True by (simp add: batch_inserts_v2_def)
    show ?thesis
    proof (cases "ins ?p db")
      case (Inl e)
      then show ?thesis
        unfolding brain_dump_loop_v2_step [OF True] b by simp
    next
      case (Inr res)
      obtain r db1 where res: "res = (r, db1)"
        by (cases res)
      have "brain_dump_loop_v2 ins rt clock dbk da (t # ts) created db =
          brain_dump_loop_v2 ins rt clock dbk da ts (created @ [r]) db1"
        unfolding brain_dump_loop_v2_step [OF True] using Inr res by simp
      also have "\<dots> =
          (case insert_all ins (batch_inserts_v2 rt clock dbk da (Suc (length created)) ts)
                  db1 of
             Inl (e, db') \<Rightarrow> (Inl (Db e), db')
           | Inr (rows, db') \<Rightarrow> (Inr ((created @ [r]) @ rows), db'))"
        using Cons.IH [of "created @ [r]" db1] by simp
      also have "\<dots> =
          (case insert_all ins (batch_inserts_v2 rt clock dbk da (length created) (t # ts))
                  db of
             Inl (e, db') \<Rightarrow> (Inl (Db e), db')
           | Inr (rows, db') \<Rightarrow> (Inr (created @ rows), db'))"
        unfolding b using Inr res by (simp split: sum.split prod.split)
      finally show ?thesis .
    qed
  qed
qed

lemma brain_dump_loop_v3_inserts:
  "brain_dump_loop_v3 ins parse clock dbk da ds created db =
     (case insert_all ins (batch_inserts_v3 dbk da ds) db of
        Inl (e, db') \<Rightarrow> (Inl (Db e), db')
      | Inr (rows, db') \<Rightarrow>
          (Inr (created @ scored_rows parse clock (length created) rows), db'))"
proof (induction ds arbitrary: created db)
  case Nil
  then show ?case
    by (simp add: batch_inserts_v3_def scored_rows_def enumerate_eq_zip)
next
  case (Cons t ts)
  show ?case
  proof (cases "titled_v3 t")
    case False
    then have "brain_dump_loop_v3 ins parse clock dbk da (t # ts) created db =
        brain_dump_loop_v3 ins parse clock dbk da ts created db"
      by (simp add: titled_v3_def)
    moreover have "batch_inserts_v3 dbk da (t # ts) = batch_inserts_v3 dbk da ts"
      using False by (simp add: batch_inserts_v3_def)
    ultimately show ?thesis
      using Cons.IH [of created db] by simp
  next
    case True
    let ?p = "draft_insert_v3 dbk da t"
    have b: "batch_inserts_v3 dbk da (t # ts) = ?p # batch_inserts_v3 dbk da ts"
      using True by (simp add: batch_inserts_v3_def)
    show ?thesis
    proof (cases "ins ?p db")
      case (Inl e)
      then show ?thesis
        unfolding brain_dump_loop_v3_step [OF True] b by simp
    next
      case (Inr res)
      obtain r db1 where res: "res = (r, db1)"
        by (cases res)
      define m where "m = (r, reported_scores parse (fst (clock (length created)))
        (snd (clock (length created))) r)"
      have len: "length (created @ [m]) = Suc (length created)"
        by simp
      have "brain_dump_loop_v3 ins parse clock dbk da (t # ts) created db =
          brain_dump_loop_v3 ins parse clock dbk da ts (created @ [m]) db1"
        unfolding brain_dump_loop_v3_step [OF True] m_def using Inr res by simp
      also have "\<dots> =
          (case insert_all ins (batch_inserts_v3 dbk da ts) db1 of
             Inl (e, db') \<Rightarrow> (Inl (Db e), db')
           | Inr (rows, db') \<Rightarrow>
               (Inr ((created @ [m]) @ scored_rows parse clock (Suc (length created)) rows),
                db'))"
        by (rule Cons.IH [of "created @ [m]" db1, unfolded len])
      also have "\<dots> =
          (case insert_all ins (batch_inserts_v3 dbk da (t # ts)) db of
             Inl (e, db') \<Rightarrow> (Inl (Db e), db')
           | Inr (rows, db') \<Rightarrow>
               (Inr (created @ scored_rows parse clock (length created) rows), db'))"
        unfolding b using Inr res
        by (simp add: scored_rows_def m_def split: sum.split prod.split)
      finally show ?thesis .
    qed
  qed
qed

lemma batch_titles_v2:
  "map i_title (batch_inserts_v2 rt clock dbk da n ds) =
     map (\<lambda>t. JStr (trim (ToString rt (d_title t)))) (filter (titled_v2 rt) ds)"
proof (induction ds arbitrary: n)
  case Nil
  then show ?case
    by (simp add: batch_inserts_v2_def enumerate_eq_zip)
next
  case (Cons t ts)
  then show ?case
    by (simp add: batch_inserts_v2_def draft_insert_v2_def draft_task_v2_def titled_v2_title)
qed

lemma batch_titles_v3:
  "map i_title (batch_inserts_v3 dbk da ds) = map d_title (filter titled_v3 ds)"
  by (simp add: batch_inserts_v3_def draft_insert_v3_def)

lemma batch_status:
  "p \<in> set (batch_inserts_v2 rt clock dbk da n ds) \<union> set (batch_inserts_v3 dbk da ds)
   \<Longrightarrow> i_status p = JStr ''open''"
  by (auto simp: batch_inserts_v2_def batch_inserts_v3_def draft_insert_v2_def
      draft_insert_v3_def)

text \<open>
  C9, as the code has it. A draft counts as without title when its title is missing or
  empty, and in the second version also when nothing is left of the title after it is
  converted to a string and trimmed. Such a draft is skipped: each loop runs as if the
  draft were not in the batch, whatever the store does, so it inserts no task for it and
  raises no error for it. For the other drafts, and for them only, the handler hands one
  insert each to the store, in the order of the batch: with the title of the draft (trimmed
  in the second version) and status "open". When the store accepts these inserts, the
  answer lists the rows that the store returned for them, in that order (201 in the second
  version, 200 for an empty array; 200 in the third version, each row with the scores a read
  reports for it), and the store is left as these inserts left it. When the store refuses
  one of them, the answer is 500 and the store is left as it was at that insert.
\<close>

theorem C9_brain_dump:
  fixes ins :: "'db insert_fn" and rt :: runtime and clock :: "nat \<Rightarrow> int \<times> int"
    and bk ba :: jsval and ds :: "draft list"
  defines "asked2 \<equiv>
             batch_inserts_v2 rt clock (dflt bk (JStr ''today'')) (dflt ba JNull) 0 ds"
      and "asked3 \<equiv> batch_inserts_v3 (dflt bk (JStr ''today'')) (dflt ba JNull) ds"
  shows
  "(\<not> truthy (d_title t) \<longrightarrow> \<not> titled_v2 rt t \<and> \<not> titled_v3 t)
   \<and> (\<forall>s. d_title t = JStr s \<longrightarrow>
         (titled_v2 rt t \<longleftrightarrow> trim s \<noteq> []) \<and> (titled_v3 t \<longleftrightarrow> s \<noteq> []))
   \<and> brain_dump_loop_v2 ins rt clock dbk da ds created2 db =
       brain_dump_loop_v2 ins rt clock dbk da (filter (titled_v2 rt) ds) created2 db
   \<and> brain_dump_loop_v3 ins parse clock dbk da ds created3 db =
       brain_dump_loop_v3 ins parse clock dbk da (filter titled_v3 ds) created3 db
   \<and> brain_dump_v2 ins rt clock bk ba ds db =
       (if ds = [] then (Respond 200 [], db)
        else case insert_all ins asked2 db of
               Inl (e, db') \<Rightarrow> (Fail 500 ''Internal server error'', db')
             | Inr (rows, db') \<Rightarrow> (Respond 201 rows, db'))
   \<and> brain_dump_v3 ins parse clock bk ba ds db =
       (case insert_all ins asked3 db of
          Inl (e, db') \<Rightarrow> (Fail 500 ''Failed to parse brain dump'', db')
        | Inr (rows, db') \<Rightarrow> (Respond 200 (scored_rows parse clock 0 rows), db'))
   \<and> map i_title asked2 =
       map (\<lambda>t. JStr (trim (ToString rt (d_title t)))) (filter (titled_v2 rt) ds)
   \<and> map i_title asked3 = map d_title (filter titled_v3 ds)
   \<and> (\<forall>p \<in> set asked2 \<union> set asked3. i_status p = JStr ''open'')"
proof (intro conjI impI allI ballI)
  show "\<not> titled_v2 rt t" if "\<not> truthy (d_title t)"
    using that by (rule titled_v2_falsy)
  show "\<not> titled_v3 t" if "\<not> truthy (d_title t)"
    using that by (simp add: titled_v3_def)
  show "titled_v2 rt t \<longleftrightarrow> trim s \<noteq> []" if "d_title t = JStr s" for s
    using that by (rule titled_v2_string)
  show "titled_v3 t \<longleftrightarrow> s \<noteq> []" if "d_title t = JStr s" for s
    using that by (simp add: titled_v3_def)
  show "brain_dump_loop_v2 ins rt clock dbk da ds created2 db =
       brain_dump_loop_v2 ins rt clock dbk da (filter (titled_v2 rt) ds) created2 db"
    by (rule brain_dump_loop_v2_skips)
  show "brain_dump_loop_v3 ins parse clock dbk da ds created3 db =
       brain_dump_loop_v3 ins parse clock dbk da (filter titled_v3 ds) created3 db"
    by (rule brain_dump_loop_v3_skips)
  show "brain_dump_v2 ins rt clock bk ba ds db =
       (if ds = [] then (Respond 200 [], db)
        else case insert_all ins asked2 db of
               Inl (e, db') \<Rightarrow> (Fail 500 ''Internal server error'', db')
             | Inr (rows, db') \<Rightarrow> (Respond 201 rows, db'))"
    unfolding asked2_def brain_dump_v2_def Let_def
    by (subst brain_dump_loop_v2_inserts) (simp split: sum.split prod.split)
  show "brain_dump_v3 ins parse clock bk ba ds db =
       (case insert_all ins asked3 db of
          Inl (e, db') \<Rightarrow> (Fail 500 ''Failed to parse brain dump'', db')
        | Inr (rows, db') \<Rightarrow> (Respond 200 (scored_rows parse clock 0 rows), db'))"
    unfolding asked3_def brain_dump_v3_def Let_def
    by (subst brain_dump_loop_v3_inserts) (simp split: sum.split prod.split)
  show "map i_title asked2 =
       map (\<lambda>t. JStr (trim (ToString rt (d_title t)))) (filter (titled_v2 rt) ds)"
    unfolding asked2_def by (rule batch_titles_v2)
  show "map i_title asked3 = map d_title (filter titled_v3 ds)"
    unfolding asked3_def by (rule batch_titles_v3)
  show "i_status p = JStr ''open''"
    if "p \<in> set asked2 \<union> set asked3" for p
    using that unfolding asked2_def asked3_def by (rule batch_status)
qed

lemma example_titles:
  "trim ''Buy milk'' = ''Buy milk''" "trim ''  '' = []" "trim [] = []"
  "trim [CHR 0xC2, CHR 0xA0] = []"
  by code_simp+

lemma example_titled:
  "titled_v2 example_runtime milk_draft" "\<not> titled_v2 example_runtime untitled_draft"
  "\<not> titled_v2 example_runtime empty_title_draft"
  "\<not> titled_v2 example_runtime blank_title_draft"
  "\<not> titled_v2 example_runtime nbsp_title_draft"
  "titled_v3 milk_draft" "\<not> titled_v3 untitled_draft" "\<not> titled_v3 empty_title_draft"
  "titled_v3 blank_title_draft"
  by (simp_all add: titled_v2_def titled_v3_def js_or_def example_titles milk_draft_def
      untitled_draft_def empty_title_draft_def blank_title_draft_def nbsp_title_draft_def)

lemma dump_row_scores:
  "reported_scores (\<lambda>_. None) 0 0 dump_row = \<lparr> L = 3, U = 3, R = 3, F = 2, score = 7 \<rparr>"
  by (simp add: reported_scores_def computeTonyScore_leverageScore_def
      computeTonyScore_urgencyScore_def computeTonyScore_riskScore_def js_or_def
      current_fields_def js_of_row_def nullable_def friction_table_def dump_row_def
      milk_row_def)

lemma example_insert_v2:
  "draft_insert_v2 example_runtime 0 0 (JStr ''today'') JNull milk_draft =
     \<lparr> i_title = JStr ''Buy milk'', i_description = JNull, i_area = JNull,
       i_status = JStr ''open'', i_bucket = JStr ''today'', i_priority = JNum 3,
       i_due_date = JNull, i_scores = Some (3, 3, 3, 2) \<rparr>"
  by (simp add: draft_insert_v2_def draft_task_v2_def milk_draft_def example_runtime_def
      js_or_def example_titles leverageScore_number urgencyScore_absent riskScore_def
      friction_table_def)

lemma example_insert_v3:
  "draft_insert_v3 (JStr ''today'') JNull milk_draft =
     \<lparr> i_title = JStr ''Buy milk'', i_description = JNull, i_area = JNull,
       i_status = JStr ''open'', i_bucket = JStr ''today'', i_priority = JNum 3,
       i_due_date = JNull, i_scores = None \<rparr>"
  by (simp add: draft_insert_v3_def milk_draft_def dflt_def js_or_def)

lemma example_stored:
  "memory_insert \<lparr> i_title = JStr ''Buy milk'', i_description = JNull, i_area = JNull,
       i_status = JStr ''open'', i_bucket = JStr ''today'', i_priority = JNum 3,
       i_due_date = JNull, i_scores = Some (3, 3, 3, 2) \<rparr> []
     = Inr (dump_row_v2, [dump_row_v2])"
  "memory_insert \<lparr> i_title = JStr ''Buy milk'', i_description = JNull, i_area = JNull,
       i_status = JStr ''open'', i_bucket = JStr ''today'', i_priority = JNum 3,
       i_due_date = JNull, i_scores = None \<rparr> [] = Inr (dump_row, [dump_row])"
  by (simp_all add: memory_insert_def Let_def text_or_empty_def dump_row_v2_def dump_row_def
      milk_row_def)

text \<open>
  A batch of a draft without title, a titled draft and a draft with an empty title. With
  the store that accepts, both versions insert the titled draft and nothing else. With the
  store that refuses, both versions fail on the titled draft, and a batch of the two other
  drafts alone is answered without error.
\<close>

theorem C9_brain_dump_witness:
  "brain_dump_v2 memory_insert example_runtime (\<lambda>_. (0, 0)) (JStr ''today'') JNull
     [untitled_draft, milk_draft, empty_title_draft] []
     = (Respond 201 [dump_row_v2], [dump_row_v2])
   \<and> brain_dump_v3 memory_insert (\<lambda>_. None) (\<lambda>_. (0, 0)) (JStr ''today'') JNull
     [untitled_draft, milk_draft, empty_title_draft] []
     = (Respond 200 [(dump_row, \<lparr> L = 3, U = 3, R = 3, F = 2, score = 7 \<rparr>)], [dump_row])
   \<and> col_title dump_row = ''Buy milk'' \<and> col_status dump_row = ''open''
   \<and> brain_dump_v2 refusing_insert example_runtime (\<lambda>_. (0, 0)) (JStr ''today'') JNull
     [untitled_draft, milk_draft, empty_title_draft] []
     = (Fail 500 ''Internal server error'', [])
   \<and> brain_dump_v3 refusing_insert (\<lambda>_. None) (\<lambda>_. (0, 0)) (JStr ''today'') JNull
     [untitled_draft, milk_draft, empty_title_draft] []
     = (Fail 500 ''Failed to parse brain dump'', [])
   \<and> brain_dump_v2 refusing_insert example_runtime (\<lambda>_. (0, 0)) (JStr ''today'') JNull
     [untitled_draft, empty_title_draft] [] = (Respond 201 [], [])
   \<and> brain_dump_v3 refusing_insert (\<lambda>_. None) (\<lambda>_. (0, 0)) (JStr ''today'') JNull
     [untitled_draft, empty_title_draft] [] = (Respond 200 [], [])
   \<and> \<not> titled_v2 example_runtime untitled_draft \<and> \<not> titled_v3 untitled_draft
   \<and> \<not> titled_v2 example_runtime empty_title_draft \<and> \<not> titled_v3 empty_title_draft
   \<and> \<not> titled_v2 example_runtime nbsp_title_draft"
proof -
  let ?ds = "[untitled_draft, milk_draft, empty_title_draft]"
  let ?us = "[untitled_draft, empty_title_draft]"
  note accepted = C9_brain_dump [where t = untitled_draft and ins = memory_insert
      and rt = example_runtime and parse = "\<lambda>_. None" and clock = "\<lambda>_. (0, 0)"
      and bk = "JStr ''today''" and ba = JNull and dbk = "JStr ''today''" and da = JNull
      and ds = ?ds and ?created2.0 = "[]" and ?created3.0 = "[]" and db = "[]"]
  note refused = C9_brain_dump [where t = empty_title_draft and ins = refusing_insert
      and rt = example_runtime and parse = "\<lambda>_. None" and clock = "\<lambda>_. (0, 0)"
      and bk = "JStr ''today''" and ba = JNull and dbk = "JStr ''today''" and da = JNull
      and ds = ?ds and ?created2.0 = "[]" and ?created3.0 = "[]" and db = "[]"]
  note skipped = C9_brain_dump [where t = nbsp_title_draft and ins = refusing_insert
      and rt = example_runtime and parse = "\<lambda>_. None" and clock = "\<lambda>_. (0, 0)"
      and bk = "JStr ''today''" and ba = JNull and dbk = "JStr ''today''" and da = JNull
      and ds = ?us and ?created2.0 = "[]" and ?created3.0 = "[]" and db = "[]"]
  have b2: "batch_inserts_v2 example_runtime (\<lambda>_. (0, 0)) (JStr ''today'') JNull 0 ?ds =
      [draft_insert_v2 example_runtime 0 0 (JStr ''today'') JNull milk_draft]"
    "batch_inserts_v2 example_runtime (\<lambda>_. (0, 0)) (JStr ''today'') JNull 0 ?us = []"
    by (simp_all add: batch_inserts_v2_def example_titled enumerate_eq_zip)
  have b3: "batch_inserts_v3 (JStr ''today'') JNull ?ds =
      [draft_insert_v3 (JStr ''today'') JNull milk_draft]"
    "batch_inserts_v3 (JStr ''today'') JNull ?us = []"
    by (simp_all add: batch_inserts_v3_def example_titled)
  have d: "dflt (JStr ''today'') (JStr ''today'') = JStr ''today''" "dflt JNull JNull = JNull"
    by (simp_all add: dflt_def)
  have "brain_dump_v2 memory_insert example_runtime (\<lambda>_. (0, 0)) (JStr ''today'') JNull ?ds []
     = (Respond 201 [dump_row_v2], [dump_row_v2])"
    using accepted
    by (simp only: d b2 insert_all.simps example_insert_v2 example_stored) simp
  moreover have "brain_dump_v3 memory_insert (\<lambda>_. None) (\<lambda>_. (0, 0)) (JStr ''today'') JNull
     ?ds []
     = (Respond 200 [(dump_row, \<lparr> L = 3, U = 3, R = 3, F = 2, score = 7 \<rparr>)], [dump_row])"
    using accepted
    by (simp only: d b3 insert_all.simps example_insert_v3 example_stored)
       (simp add: scored_rows_def enumerate_eq_zip dump_row_scores)
  moreover have "col_title dump_row = ''Buy milk'' \<and> col_status dump_row = ''open''"
    by (simp add: dump_row_def milk_row_def)
  moreover have "brain_dump_v2 refusing_insert example_runtime (\<lambda>_. (0, 0)) (JStr ''today'')
     JNull ?ds [] = (Fail 500 ''Internal server error'', [])"
    using refused by (simp only: d b2 insert_all.simps refusing_insert_def) simp
  moreover have "brain_dump_v3 refusing_insert (\<lambda>_. None) (\<lambda>_. (0, 0)) (JStr ''today'')
     JNull ?ds [] = (Fail 500 ''Failed to parse brain dump'', [])"
    using refused by (simp only: d b3 insert_all.simps refusing_insert_def) simp
  moreover have "brain_dump_v2 refusing_insert example_runtime (\<lambda>_. (0, 0)) (JStr ''today'')
     JNull ?us [] = (Respond 201 [], [])"
    using skipped by (simp only: d b2 insert_all.simps) simp
  moreover have "brain_dump_v3 refusing_insert (\<lambda>_. None) (\<lambda>_. (0, 0)) (JStr ''today'')
     JNull ?us [] = (Respond 200 [], [])"
    using skipped by (simp only: d b3 insert_all.simps) (simp add: scored_rows_def enumerate_eq_zip)
  moreover have "\<not> titled_v2 example_runtime untitled_draft \<and> \<not> titled_v3 untitled_draft"
    using accepted by (simp add: untitled_draft_def milk_draft_def)
  moreover have "\<not> titled_v2 example_runtime empty_title_draft
      \<and> \<not> titled_v3 empty_title_draft"
    using refused by (simp add: empty_title_draft_def milk_draft_def)
  moreover have "\<not> titled_v2 example_runtime nbsp_title_draft"
    using skipped by (simp add: nbsp_title_draft_def milk_draft_def example_titles)
  ultimately show ?thesis
    by simp
qed

lemma blank_row_scores:
  "reported_scores (\<lambda>_. None) 0 0 blank_row = \<lparr> L = 3, U = 3, R = 3, F = 2, score = 7 \<rparr>"
  by (simp add: reported_scores_def computeTonyScore_leverageScore_def
      computeTonyScore_urgencyScore_def computeTonyScore_riskScore_def js_or_def
      current_fields_def js_of_row_def nullable_def friction_table_def blank_row_def
      dump_row_def milk_row_def)

lemma blank_title_v3:
  "brain_dump_v3 memory_insert (\<lambda>_. None) (\<lambda>_. (0, 0)) JUndefined JUndefined
     [blank_title_draft] []
   = (Respond 200 [(blank_row, \<lparr> L = 3, U = 3, R = 3, F = 2, score = 7 \<rparr>)], [blank_row])"
proof -
  have "memory_insert \<lparr> i_title = JStr ''  '', i_description = JNull, i_area = JNull,
       i_status = JStr ''open'', i_bucket = JStr ''today'', i_priority = JNum 3,
       i_due_date = JNull, i_scores = None \<rparr> [] = Inr (blank_row, [blank_row])"
    by (simp add: memory_insert_def Let_def text_or_empty_def blank_row_def dump_row_def
        milk_row_def)
  then show ?thesis
    by (simp add: brain_dump_v3_def blank_title_draft_def milk_draft_def dflt_def js_or_def
        withScores_single blank_row_scores del: withScores.simps)
qed

text \<open>
  C9 as written fails. A title of two spaces is not empty, and the second version answers
  the batch with no created task and an unchanged store; the third version creates a task
  for the same draft, so the two loops do not skip the same titles.
\<close>

theorem C9_brain_dump_counterexample:
  "d_title blank_title_draft = JStr ''  ''
   \<and> brain_dump_v2 memory_insert example_runtime (\<lambda>_. (0, 0)) JUndefined JUndefined
       [blank_title_draft] [] = (Respond 201 [], [])
   \<and> brain_dump_v3 memory_insert (\<lambda>_. None) (\<lambda>_. (0, 0)) JUndefined JUndefined
       [blank_title_draft] []
     = (Respond 200 [(blank_row, \<lparr> L = 3, U = 3, R = 3, F = 2, score = 7 \<rparr>)], [blank_row])"
  using blank_title_v3
  by (simp add: brain_dump_v2_def dflt_def blank_title_draft_def milk_draft_def
      example_runtime_def js_or_def example_titles)

end
